theory Spec2Isabelle
  imports Main
begin

section \<open>Data model\<close>

text \<open>
  Go strings are byte sequences, so a \<open>string\<close> here is the list of the UTF-8 bytes.
  A \<open>time.Time\<close> is the instant it denotes, in nanoseconds since the Unix epoch
  (the resolution of \<open>time.Time\<close>); Go's \<open>int\<close> (used for the points only, never
  in arithmetic) is an \<open>int\<close>.
\<close>

type_synonym Time = int

text \<open>\<open>booking.Booking\<close>, field by field.\<close>

record Booking =
  ID :: string
  Game :: string
  UserID :: string
  Username :: string
  Points :: int
  Description :: string
  Status :: string
  ReminderEnabled :: bool
  DateTime :: Time
  Players :: "string list"

text \<open>The zero value \<open>Booking{}\<close>.\<close>

definition Booking_zero :: Booking where
  "Booking_zero =
     \<lparr>ID = [], Game = [], UserID = [], Username = [], Points = 0, Description = [],
      Status = [], ReminderEnabled = False, DateTime = 0, Players = []\<rparr>"

text \<open>The \<open>discord\<close> package: \<open>User\<close> and \<open>Member\<close>.\<close>

record User =
  User_ID :: string
  User_Username :: string

record Member =
  Member_User :: User
  Member_Roles :: "string list"

text \<open>
  Modelled from the spec: the declaration of \<open>discord.DiscordUser\<close> is not among the
  sources. The spec gives the caller's identity an ID, a username and an admin flag, and
  these are the three fields the authentication middleware fills in.
\<close>

record DiscordUser =
  DiscordUser_ID :: string
  DiscordUser_Username :: string
  DiscordUser_Admin :: bool

text \<open>\<open>Author\<close>, \<open>EmbedField\<close>, \<open>Embed\<close> and \<open>Message\<close>.\<close>

record Author =
  Author_Name :: string
  Author_URL :: string
  Author_IconURL :: string

record EmbedField =
  Name :: string
  Value :: string
  Inline :: bool

record Embed =
  Embed_Type :: string
  Embed_Title :: string
  Embed_Author :: Author
  Embed_Fields :: "EmbedField list"
  Embed_ChannelID :: string
  Embed_Content :: string

record Message =
  Message_Content :: string
  Message_Embeds :: "Embed list"

definition Author_zero :: Author where
  "Author_zero = \<lparr>Author_Name = [], Author_URL = [], Author_IconURL = []\<rparr>"

section \<open>Errors\<close>

text \<open>
  The three sentinel errors of the package, \<open>pgx.ErrNoRows\<close>, an error of a library
  (the database driver, the HTTP transport) known only by its message, and
  \<open>fmt.Errorf("<prefix>: %w", err)\<close>, which keeps the wrapped error.
\<close>

datatype error =
    ErrBookingNotFound
  | ErrInvalidBookingState
  | ErrNotAllowed
  | ErrNoRows
  | OpaqueError string
  | Errorf string error

text \<open>\<open>errors.Is\<close>: the error itself or anything it wraps.\<close>

fun errors_Is :: "error \<Rightarrow> error \<Rightarrow> bool" where
  "errors_Is (Errorf p e) target = (Errorf p e = target \<or> errors_Is e target)"
| "errors_Is e target = (e = target)"

text \<open>\<open>err.Error()\<close>: the message.\<close>

fun Error :: "error \<Rightarrow> string" where
  "Error ErrBookingNotFound = ''booking not found''"
| "Error ErrInvalidBookingState = ''invalid booking state''"
| "Error ErrNotAllowed = ''not allowed to perform this operation''"
| "Error ErrNoRows = ''no rows in result set''"
| "Error (OpaqueError m) = m"
| "Error (Errorf p e) = p @ '': '' @ Error e"

section \<open>String helpers of the standard library\<close>

text \<open>\<open>strconv.Itoa\<close>: decimal digits, with a minus sign for a negative number.\<close>

fun digits :: "nat \<Rightarrow> string" where
  "digits n =
     (if n < 10 then [char_of (48 + n)]
      else digits (n div 10) @ [char_of (48 + n mod 10)])"

declare digits.simps [simp del]

definition Itoa :: "int \<Rightarrow> string" where
  "Itoa i = (if i < 0 then ''-'' @ digits (nat (- i)) else digits (nat i))"

text \<open>\<open>strings.Join\<close>.\<close>

fun strings_Join :: "string list \<Rightarrow> string \<Rightarrow> string" where
  "strings_Join [] sep = []"
| "strings_Join [x] sep = x"
| "strings_Join (x # y # ys) sep = x @ sep @ strings_Join (y # ys) sep"

text \<open>\<open>slices.Contains\<close>, as the loop it is.\<close>

fun slices_Contains :: "string list \<Rightarrow> string \<Rightarrow> bool" where
  "slices_Contains [] v = False"
| "slices_Contains (x # xs) v = (if x = v then True else slices_Contains xs v)"

section \<open>The database connection\<close>

text \<open>
  The table \<open>"game-table-booking".booking\<close> behind the \<open>pgx\<close> connection is a list
  of rows, each with the columns of a \<open>Booking\<close>. The connection is outside the
  repository, so its behaviour is an environment:
  \<^item> \<open>faults\<close> is the schedule of the connection's outcomes: every statement takes the
    head; \<open>Some m\<close> makes the statement fail with the driver error \<open>m\<close> and leave the
    table as it was, \<open>None\<close> (or an exhausted schedule) lets it run;
  \<^item> \<open>executed\<close> records every statement sent, in order.
\<close>

text \<open>
  Modelled from the spec: \<open>database/setup.sql\<close>, which declares the table, is not among
  the sources. The column \<open>"dateTime"\<close> holds the booking's date-time (the queries
  compare it with \<open>time.Now()\<close> and format it with \<open>TO_CHAR\<close>), so it is a
  PostgreSQL timestamp, whose resolution is one microsecond: of a \<open>time.Time\<close> sent
  as a parameter the driver keeps the whole microseconds and drops the nanoseconds
  below.
\<close>

definition pg_timestamp :: "Time \<Rightarrow> Time" where
  "pg_timestamp t = (t div 1000) * 1000"

datatype stmt =
    SelectByID string
  | InsertRow Booking
  | UpdateRow Booking
  | UpdateStatus string string

record DB =
  rows :: "Booking list"
  serial :: nat
  faults :: "string option list"
  executed :: "stmt list"

definition send_stmt :: "stmt \<Rightarrow> DB \<Rightarrow> string option \<times> DB" where
  "send_stmt q db =
     (case faults db of
        [] \<Rightarrow> (None, db\<lparr>executed := executed db @ [q]\<rparr>)
      | f # fs \<Rightarrow> (f, db\<lparr>faults := fs, executed := executed db @ [q]\<rparr>))"

text \<open>
  \<open>SELECT ... WHERE id=$1\<close> through \<open>QueryRow(...).Scan\<close>: the first matching row,
  or \<open>pgx.ErrNoRows\<close>.
\<close>

definition conn_select_by_id :: "string \<Rightarrow> DB \<Rightarrow> (Booking \<times> error option) \<times> DB" where
  "conn_select_by_id bid db =
     (case send_stmt (SelectByID bid) db of
        (Some m, db') \<Rightarrow> ((Booking_zero, Some (OpaqueError m)), db')
      | (None, db') \<Rightarrow>
          (case find (\<lambda>r. ID r = bid) (rows db') of
             None \<Rightarrow> ((Booking_zero, Some ErrNoRows), db')
           | Some r \<Rightarrow> ((r, None), db')))"

text \<open>
  Modelled from the spec: \<open>database/setup.sql\<close>, which declares the table, is not among
  the sources; the spec says the ID is an "opaque unique ID, assigned by storage on
  creation". The storage assigns the decimal rendering of a serial number, and the
  column is a unique key: a row whose ID is already present is rejected with a driver
  error.

  \<open>INSERT ... VALUES ($1, ..., $9) RETURNING id\<close>: the nine values become the new row,
  the date-time as the timestamp column keeps it, and the generated ID is returned.
\<close>

definition conn_insert ::
  "string \<Rightarrow> string \<Rightarrow> string \<Rightarrow> int \<Rightarrow> string \<Rightarrow> string \<Rightarrow> bool \<Rightarrow> Time \<Rightarrow> string list
     \<Rightarrow> DB \<Rightarrow> (string \<times> error option) \<times> DB" where
  "conn_insert game userId username points description status reminderEnabled dateTime players db =
     (let row = \<lparr>ID = [], Game = game, UserID = userId, Username = username, Points = points,
                 Description = description, Status = status,
                 ReminderEnabled = reminderEnabled, DateTime = dateTime, Players = players\<rparr>
      in case send_stmt (InsertRow row) db of
        (Some m, db') \<Rightarrow> (([], Some (OpaqueError m)), db')
      | (None, db') \<Rightarrow>
          (let new_id = digits (serial db')
           in if \<exists>r \<in> set (rows db'). ID r = new_id
              then (([], Some (OpaqueError ''duplicate key value violates unique constraint'')),
                    db'\<lparr>serial := Suc (serial db')\<rparr>)
              else ((new_id, None),
                    db'\<lparr>rows := rows db'
                                 @ [row\<lparr>ID := new_id, DateTime := pg_timestamp dateTime\<rparr>],
                        serial := Suc (serial db')\<rparr>)))"

text \<open>
  \<open>UPDATE ... SET game=$1, points=$2, description=$3, "reminderEnabled"=$4,
  "dateTime"=$5, players=$6 WHERE id=$7\<close> through \<open>Exec\<close>: the number of rows
  affected. The date-time is stored as the timestamp column keeps it.
\<close>

definition conn_update_fields ::
  "string \<Rightarrow> int \<Rightarrow> string \<Rightarrow> bool \<Rightarrow> Time \<Rightarrow> string list \<Rightarrow> string
     \<Rightarrow> DB \<Rightarrow> (nat \<times> error option) \<times> DB" where
  "conn_update_fields game points description reminderEnabled dateTime players bid db =
     (case send_stmt
             (UpdateRow \<lparr>ID = bid, Game = game, UserID = [], Username = [], Points = points,
                         Description = description, Status = [],
                         ReminderEnabled = reminderEnabled, DateTime = dateTime,
                         Players = players\<rparr>) db of
        (Some m, db') \<Rightarrow> ((0, Some (OpaqueError m)), db')
      | (None, db') \<Rightarrow>
          ((length (filter (\<lambda>r. ID r = bid) (rows db')), None),
           db'\<lparr>rows :=
                 map (\<lambda>r. if ID r = bid
                           then r\<lparr>Game := game, Points := points, Description := description,
                                  ReminderEnabled := reminderEnabled,
                                  DateTime := pg_timestamp dateTime, Players := players\<rparr>
                           else r) (rows db')\<rparr>))"

text \<open>\<open>UPDATE ... SET status=$1 WHERE id=$2\<close> through \<open>Exec\<close>.\<close>

definition conn_update_status :: "string \<Rightarrow> string \<Rightarrow> DB \<Rightarrow> (nat \<times> error option) \<times> DB" where
  "conn_update_status status bid db =
     (case send_stmt (UpdateStatus bid status) db of
        (Some m, db') \<Rightarrow> ((0, Some (OpaqueError m)), db')
      | (None, db') \<Rightarrow>
          ((length (filter (\<lambda>r. ID r = bid) (rows db')), None),
           db'\<lparr>rows := map (\<lambda>r. if ID r = bid then r\<lparr>Status := status\<rparr> else r) (rows db')\<rparr>))"

section \<open>The repository\<close>

text \<open>
  \<open>Repository.GetBookingByID\<close>. (The parameter \<open>id\<close> of the source is written
  \<open>bid\<close> throughout, \<open>id\<close> being HOL's identity function.)
\<close>

definition GetBookingByID :: "string \<Rightarrow> DB \<Rightarrow> (Booking \<times> error option) \<times> DB" where
  "GetBookingByID bid db =
     (case conn_select_by_id bid db of
        ((booking, Some err), db') \<Rightarrow>
          if errors_Is err ErrNoRows then ((Booking_zero, Some ErrBookingNotFound), db')
          else ((Booking_zero,
                 Some (Errorf (''failed to fetch booking with id '' @ bid) err)), db')
      | ((booking, None), db') \<Rightarrow> ((booking, None), db'))"

text \<open>
  \<open>Repository.InsertBooking\<close>: the status sent to the database is the constant
  \<open>"pending"\<close>; of the local \<open>booking\<close> only the ID is written (by \<open>Scan\<close>) before
  it is returned.
\<close>

definition InsertBooking :: "Booking \<Rightarrow> DB \<Rightarrow> (Booking \<times> error option) \<times> DB" where
  "InsertBooking booking db =
     (case conn_insert (Game booking) (UserID booking) (Username booking) (Points booking)
             (Description booking) ''pending'' (ReminderEnabled booking) (DateTime booking)
             (Players booking) db of
        ((new_id, Some err), db') \<Rightarrow>
          ((Booking_zero, Some (Errorf ''failed to insert booking'' err)), db')
      | ((new_id, None), db') \<Rightarrow> ((booking\<lparr>ID := new_id\<rparr>, None), db'))"

text \<open>\<open>Repository.UpdateBooking\<close>.\<close>

definition UpdateBooking :: "Booking \<Rightarrow> DB \<Rightarrow> error option \<times> DB" where
  "UpdateBooking booking db =
     (case conn_update_fields (Game booking) (Points booking) (Description booking)
             (ReminderEnabled booking) (DateTime booking) (Players booking) (ID booking) db of
        ((n, Some err), db') \<Rightarrow> (Some (Errorf ''failed to update booking'' err), db')
      | ((n, None), db') \<Rightarrow>
          if n = 0 then (Some ErrBookingNotFound, db') else (None, db'))"

text \<open>\<open>Repository.SetBookingStatus\<close>.\<close>

definition SetBookingStatus :: "string \<Rightarrow> string \<Rightarrow> DB \<Rightarrow> error option \<times> DB" where
  "SetBookingStatus bid status db =
     (case conn_update_status status bid db of
        ((n, Some err), db') \<Rightarrow>
          (Some (Errorf (''failed to update booking '' @ [CHR 0x27] @ bid @ [CHR 0x27] @ '' status'')
                   err), db')
      | ((n, None), db') \<Rightarrow>
          if n = 0 then (Some ErrBookingNotFound, db') else (None, db'))"

section \<open>The chat client\<close>

text \<open>
  \<open>discord.DiscordClient\<close> is an interface; the service uses two of its methods. An
  implementation is any pair of functions over a client state \<open>'c\<close> of its own (a
  cache, the network), each returning what the Go method returns together with the next
  state.
\<close>

record 'c DiscordClient =
  SendMessage :: "string \<Rightarrow> Message \<Rightarrow> 'c \<Rightarrow> error option \<times> 'c"
  SearchMembers :: "string \<Rightarrow> int \<Rightarrow> 'c \<Rightarrow> (Member list \<times> error option) \<times> 'c"

section \<open>The booking service\<close>

text \<open>
  \<open>booking.Service\<close>. Its \<open>repo\<close> is the repository above, as \<open>main\<close> wires it.
  \<open>formatDateTime\<close> stands for \<open>booking.DateTime.In(loc).Format(time.DateTime)\<close>
  with the location loaded by \<open>time.LoadLocation\<close>: it belongs to Go's standard
  library and the host's time-zone database, and is a parameter here.
\<close>

record 'c Service =
  client :: "'c DiscordClient"
  channelID :: string
  formatDateTime :: "Time \<Rightarrow> string"

text \<open>
  What a call of the service acts on: the database behind the repository's connection,
  the state of the chat client, and the messages handed to \<open>SendMessage\<close> so far (with
  their channel), in order.
\<close>

record 'c World =
  conn :: DB
  chatState :: 'c
  outbox :: "(string \<times> Message) list"

record NotificationOptions =
  message :: string
  reason :: string

text \<open>\<open>checkUserAllowed\<close>.\<close>

definition checkUserAllowed :: "Booking \<Rightarrow> DiscordUser \<Rightarrow> bool" where
  "checkUserAllowed booking user =
     (if UserID booking \<noteq> DiscordUser_ID user
         \<and> \<not> slices_Contains (Players booking) (DiscordUser_Username user)
      then False
      else True)"

text \<open>\<open>fmt.Sprintf("<@%v>", x)\<close> for a string \<open>x\<close>.\<close>

definition Sprintf_tag :: "string \<Rightarrow> string" where
  "Sprintf_tag x = ''<@'' @ x @ ''>''"

text \<open>
  The loop of \<open>sendNotification\<close> over \<open>booking.Players\<close>; \<open>playerTags\<close> is the slice
  being appended to.
\<close>

fun playerTags_loop ::
  "'c DiscordClient \<Rightarrow> string list \<Rightarrow> string list \<Rightarrow> 'c \<Rightarrow> string list \<times> 'c" where
  "playerTags_loop cl [] playerTags c = (playerTags, c)"
| "playerTags_loop cl (player # rest) playerTags c =
     (case SearchMembers cl player 1 c of
        ((members, err), c') \<Rightarrow>
          playerTags_loop cl rest
            (if err = None \<and> length members \<noteq> 0
             then playerTags @ [Sprintf_tag (User_ID (Member_User (members ! 0)))]
             else playerTags)
            c')"

text \<open>The embed that \<open>sendNotification\<close> builds, given the resolved tags.\<close>

definition notification_embed ::
  "'c Service \<Rightarrow> Booking \<Rightarrow> NotificationOptions \<Rightarrow> string list \<Rightarrow> Embed" where
  "notification_embed s booking options playerTags =
     (let userTag = (if length (UserID booking) \<noteq> 0 then Sprintf_tag (UserID booking)
                     else Sprintf_tag (Username booking));
          description = (if length (Description booking) \<noteq> 0 then Description booking
                         else ''Aucune'');
          embed =
            \<lparr>Embed_Type = ''rich'',
             Embed_Title = message options,
             Embed_Author = Author_zero,
             Embed_Fields =
               [\<lparr>Name = ''Utilisateur'', Value = userTag, Inline = True\<rparr>,
                \<lparr>Name = ''Date et Heure'', Value = formatDateTime s (DateTime booking),
                 Inline = True\<rparr>,
                \<lparr>Name = ''Jeu'', Value = Game booking, Inline = True\<rparr>,
                \<lparr>Name = ''Points'', Value = Itoa (Points booking), Inline = True\<rparr>,
                \<lparr>Name = ''Joueurs'', Value = strings_Join playerTags '', '', Inline = True\<rparr>,
                \<lparr>Name = ''Description'', Value = description, Inline = True\<rparr>],
             Embed_ChannelID = channelID s,
             Embed_Content = []\<rparr>
      in if length (reason options) \<noteq> 0
         then embed\<lparr>Embed_Fields :=
                      Embed_Fields embed
                      @ [\<lparr>Name = ''Raison'', Value = reason options, Inline = True\<rparr>]\<rparr>
         else embed)"

text \<open>
  \<open>Service.sendNotification\<close>: resolve the players, build the embed, hand the message
  to the client, drop what \<open>SendMessage\<close> returns, return \<open>nil\<close>.
\<close>

definition sendNotification ::
  "'c Service \<Rightarrow> Booking \<Rightarrow> NotificationOptions \<Rightarrow> 'c World \<Rightarrow> error option \<times> 'c World" where
  "sendNotification s booking options w =
     (case playerTags_loop (client s) (Players booking) [] (chatState w) of
        (playerTags, c1) \<Rightarrow>
          (let msg = \<lparr>Message_Content = [],
                      Message_Embeds = [notification_embed s booking options playerTags]\<rparr>
           in case SendMessage (client s) (channelID s) msg c1 of
                (send_err, c2) \<Rightarrow>
                  (None, w\<lparr>chatState := c2, outbox := outbox w @ [(channelID s, msg)]\<rparr>)))"

text \<open>The letter e with an acute accent, in UTF-8, for the titles.\<close>

definition e_acute :: string where
  "e_acute = [CHR 0xC3, CHR 0xA9]"

text \<open>\<open>Service.CreateBooking\<close>.\<close>

definition CreateBooking ::
  "'c Service \<Rightarrow> Booking \<Rightarrow> 'c World \<Rightarrow> (Booking \<times> error option) \<times> 'c World" where
  "CreateBooking s booking w =
     (case InsertBooking booking (conn w) of
        ((booking', err), d1) \<Rightarrow>
          if err = None
          then (case sendNotification s booking'
                       \<lparr>message = ''Nouvelle R'' @ e_acute @ ''servation :calendar:'',
                        reason = []\<rparr>
                       (w\<lparr>conn := d1\<rparr>) of
                  (notify_err, w2) \<Rightarrow> ((booking', err), w2))
          else ((booking', err), w\<lparr>conn := d1\<rparr>))"

text \<open>\<open>Service.ModifyBooking\<close>.\<close>

definition ModifyBooking ::
  "'c Service \<Rightarrow> Booking \<Rightarrow> DiscordUser \<Rightarrow> 'c World \<Rightarrow> error option \<times> 'c World" where
  "ModifyBooking s updated user w =
     (case GetBookingByID (ID updated) (conn w) of
        ((booking, Some err), d1) \<Rightarrow> (Some err, w\<lparr>conn := d1\<rparr>)
      | ((booking, None), d1) \<Rightarrow>
          if Status booking \<noteq> ''pending'' then (Some ErrInvalidBookingState, w\<lparr>conn := d1\<rparr>)
          else if \<not> checkUserAllowed booking user then (Some ErrNotAllowed, w\<lparr>conn := d1\<rparr>)
          else
            (let booking' = booking\<lparr>Game := Game updated, Points := Points updated,
                                    Description := Description updated,
                                    ReminderEnabled := ReminderEnabled updated,
                                    DateTime := DateTime updated,
                                    Players := Players updated\<rparr>
             in case UpdateBooking booking' d1 of
                  (None, d2) \<Rightarrow>
                    (case sendNotification s booking'
                            \<lparr>message = ''R'' @ e_acute @ ''servation Modifi'' @ e_acute
                                         @ ''e :pencil:'',
                             reason = []\<rparr>
                            (w\<lparr>conn := d2\<rparr>) of
                       (notify_err, w2) \<Rightarrow> (None, w2))
                | (Some err, d2) \<Rightarrow> (Some err, w\<lparr>conn := d2\<rparr>)))"

text \<open>\<open>Service.AcceptBooking\<close>.\<close>

definition AcceptBooking :: "'c Service \<Rightarrow> string \<Rightarrow> 'c World \<Rightarrow> error option \<times> 'c World" where
  "AcceptBooking s bid w =
     (case GetBookingByID bid (conn w) of
        ((booking, Some err), d1) \<Rightarrow> (Some err, w\<lparr>conn := d1\<rparr>)
      | ((booking, None), d1) \<Rightarrow>
          if Status booking = ''canceled'' \<or> Status booking = ''accepted''
          then (Some ErrInvalidBookingState, w\<lparr>conn := d1\<rparr>)
          else
            (case SetBookingStatus bid ''accepted'' d1 of
               (None, d2) \<Rightarrow>
                 (case sendNotification s booking
                         \<lparr>message = ''R'' @ e_acute @ ''servation Accept'' @ e_acute
                                      @ ''e :white_check_mark:'',
                          reason = []\<rparr>
                         (w\<lparr>conn := d2\<rparr>) of
                    (notify_err, w2) \<Rightarrow> (None, w2))
             | (Some err, d2) \<Rightarrow> (Some err, w\<lparr>conn := d2\<rparr>)))"

text \<open>
  \<open>Service.RefuseBooking\<close>. (Its parameter \<open>reason\<close> is written \<open>why\<close>, the
  name being taken by the field of \<open>NotificationOptions\<close>.)
\<close>

definition RefuseBooking ::
  "'c Service \<Rightarrow> string \<Rightarrow> string \<Rightarrow> 'c World \<Rightarrow> error option \<times> 'c World" where
  "RefuseBooking s bid why w =
     (case GetBookingByID bid (conn w) of
        ((booking, Some err), d1) \<Rightarrow> (Some err, w\<lparr>conn := d1\<rparr>)
      | ((booking, None), d1) \<Rightarrow>
          if Status booking = ''refused'' \<or> Status booking = ''canceled''
          then (Some ErrInvalidBookingState, w\<lparr>conn := d1\<rparr>)
          else
            (case SetBookingStatus bid ''refused'' d1 of
               (None, d2) \<Rightarrow>
                 (case sendNotification s booking
                         \<lparr>message = ''R'' @ e_acute @ ''servation Refus'' @ e_acute
                                      @ ''e :no_entry:'',
                          reason = why\<rparr>
                         (w\<lparr>conn := d2\<rparr>) of
                    (notify_err, w2) \<Rightarrow> (None, w2))
             | (Some err, d2) \<Rightarrow> (Some err, w\<lparr>conn := d2\<rparr>)))"

text \<open>\<open>Service.CancelBooking\<close>.\<close>

definition CancelBooking ::
  "'c Service \<Rightarrow> string \<Rightarrow> DiscordUser \<Rightarrow> 'c World \<Rightarrow> error option \<times> 'c World" where
  "CancelBooking s bid user w =
     (case GetBookingByID bid (conn w) of
        ((booking, Some err), d1) \<Rightarrow> (Some err, w\<lparr>conn := d1\<rparr>)
      | ((booking, None), d1) \<Rightarrow>
          if Status booking = ''canceled'' \<or> Status booking = ''refused''
          then (Some ErrInvalidBookingState, w\<lparr>conn := d1\<rparr>)
          else if \<not> checkUserAllowed booking user then (Some ErrNotAllowed, w\<lparr>conn := d1\<rparr>)
          else
            (case SetBookingStatus bid ''canceled'' d1 of
               (Some err, d2) \<Rightarrow> (Some (Errorf ''failed to cancel booking'' err), w\<lparr>conn := d2\<rparr>)
             | (None, d2) \<Rightarrow>
                 (case sendNotification s booking
                         \<lparr>message = ''R'' @ e_acute @ ''servation Annul'' @ e_acute
                                      @ ''e :negative_squared_cross_mark:'',
                          reason = []\<rparr>
                         (w\<lparr>conn := d2\<rparr>) of
                    (notify_err, w2) \<Rightarrow> (None, w2))))"

section \<open>Observations and example data\<close>

text \<open>What the connection will answer to the next statement: a fault, or nothing.\<close>

definition next_fault :: "DB \<Rightarrow> string option" where
  "next_fault d = (case faults d of [] \<Rightarrow> None | f # fs \<Rightarrow> f)"

text \<open>
  What the chat client answers to the searches for the given names, asked in order from
  the given client state.
\<close>

fun search_replies ::
  "'c DiscordClient \<Rightarrow> string list \<Rightarrow> 'c \<Rightarrow> (Member list \<times> error option) list" where
  "search_replies cl [] c = []"
| "search_replies cl (player # rest) c =
     (case SearchMembers cl player 1 c of (reply, c') \<Rightarrow> reply # search_replies cl rest c')"

text \<open>
  The tag one reply contributes: the first member's, when the search returned no error
  and at least one member; nothing otherwise.
\<close>

fun reply_tag :: "Member list \<times> error option \<Rightarrow> string list" where
  "reply_tag (m # ms, None) = [''<@'' @ User_ID (Member_User m) @ ''>'']"
| "reply_tag (members, err) = []"

text \<open>
  The authorization predicate in the specification's words: the caller's ID equals the
  booking owner's ID, or the caller's username appears in the booking's players.
\<close>

definition owner_or_player :: "Booking \<Rightarrow> DiscordUser \<Rightarrow> bool" where
  "owner_or_player b user =
     (DiscordUser_ID user = UserID b \<or> DiscordUser_Username user \<in> set (Players b))"

text \<open>The value of the first field of an embed with the given name.\<close>

definition field_value :: "string \<Rightarrow> Embed \<Rightarrow> string option" where
  "field_value n e = map_option Value (find (\<lambda>f. Name f = n) (Embed_Fields e))"


text \<open>
  Two chat clients to run the service with. The first answers from a fixed member
  directory and accepts every message; its state counts the calls. The second fails
  every call.
\<close>

definition directory_client :: "Member list \<Rightarrow> nat DiscordClient" where
  "directory_client ms =
     \<lparr>SendMessage = (\<lambda>ch m n. (None, Suc n)),
      SearchMembers = (\<lambda>q limit n.
        ((take (nat limit) (filter (\<lambda>m. User_Username (Member_User m) = q) ms), None),
         Suc n))\<rparr>"

definition unreachable_client :: "unit DiscordClient" where
  "unreachable_client =
     \<lparr>SendMessage = (\<lambda>ch m u.
        (Some (Errorf ''failed to send request'' (OpaqueError ''connection refused'')), u)),
      SearchMembers = (\<lambda>q limit u.
        (([], Some (Errorf ''failed to send request'' (OpaqueError ''connection refused''))),
         u))\<rparr>"

definition example_members :: "Member list" where
  "example_members =
     [\<lparr>Member_User = \<lparr>User_ID = ''12345'', User_Username = ''user1''\<rparr>, Member_Roles = []\<rparr>,
      \<lparr>Member_User = \<lparr>User_ID = ''abcdef'', User_Username = ''player2''\<rparr>, Member_Roles = []\<rparr>]"

definition example_service :: "nat Service" where
  "example_service =
     \<lparr>client = directory_client example_members,
      channelID = ''test-channel-d'',
      formatDateTime = (\<lambda>t. ''2025-01-01 20:00:00'')\<rparr>"

definition offline_service :: "unit Service" where
  "offline_service =
     \<lparr>client = unreachable_client,
      channelID = ''test-channel-d'',
      formatDateTime = (\<lambda>t. ''2025-01-01 20:00:00'')\<rparr>"

text \<open>The booking of the service's tests, with the status left open.\<close>

definition example_booking :: "string \<Rightarrow> Booking" where
  "example_booking st =
     \<lparr>ID = ''123'', Game = ''test1'', UserID = ''user1ID'', Username = ''user1'', Points = 10,
      Description = ''test description1'', Status = st, ReminderEnabled = True,
      DateTime = 0, Players = [''user1'', ''player2'']\<rparr>"

text \<open>A database holding that one booking, with a given schedule of faults.\<close>

definition example_db :: "string \<Rightarrow> string option list \<Rightarrow> DB" where
  "example_db st fs = \<lparr>rows = [example_booking st], serial = 124, faults = fs, executed = []\<rparr>"

definition example_world :: "string \<Rightarrow> string option list \<Rightarrow> nat World" where
  "example_world st fs = \<lparr>conn = example_db st fs, chatState = 0, outbox = []\<rparr>"

definition offline_world :: "string \<Rightarrow> string option list \<Rightarrow> unit World" where
  "offline_world st fs = \<lparr>conn = example_db st fs, chatState = (), outbox = []\<rparr>"

text \<open>A world whose table is still empty.\<close>

definition empty_world :: "nat World" where
  "empty_world =
     \<lparr>conn = \<lparr>rows = [], serial = 1, faults = [], executed = []\<rparr>, chatState = 0,
      outbox = []\<rparr>"

text \<open>The owner, a listed player who is not the owner, and somebody else.\<close>

definition owner_user :: DiscordUser where
  "owner_user =
     \<lparr>DiscordUser_ID = ''user1ID'', DiscordUser_Username = ''user1'', DiscordUser_Admin = False\<rparr>"

definition player_user :: DiscordUser where
  "player_user =
     \<lparr>DiscordUser_ID = ''player2ID'', DiscordUser_Username = ''player2'',
      DiscordUser_Admin = False\<rparr>"

definition other_user :: DiscordUser where
  "other_user =
     \<lparr>DiscordUser_ID = ''someone'', DiscordUser_Username = ''someone'', DiscordUser_Admin = False\<rparr>"

text \<open>A changed booking as a caller of modify sends it, with fields it may not change.\<close>

definition example_update :: Booking where
  "example_update =
     \<lparr>ID = ''123'', Game = ''modified'', UserID = ''intruder'', Username = ''intruder'',
      Points = 20, Description = [], Status = ''accepted'', ReminderEnabled = False,
      DateTime = 5, Players = [''user1'']\<rparr>"

section \<open>The connection and the repository, statement by statement\<close>

lemma send_stmt_fst: "fst (send_stmt q d) = next_fault d"
  by (simp add: send_stmt_def next_fault_def split: list.splits)

lemma send_stmt_rows: "rows (snd (send_stmt q d)) = rows d"
  by (simp add: send_stmt_def split: list.splits)

lemma send_stmt_executed: "executed (snd (send_stmt q d)) = executed d @ [q]"
  by (simp add: send_stmt_def split: list.splits)

lemma send_stmt_serial: "serial (snd (send_stmt q d)) = serial d"
  by (simp add: send_stmt_def split: list.splits)

lemma send_stmt_faults: "faults (snd (send_stmt q d)) = tl (faults d)"
  by (simp add: send_stmt_def split: list.splits)

lemma conn_select_by_id_snd: "snd (conn_select_by_id bid d) = snd (send_stmt (SelectByID bid) d)"
  by (simp add: conn_select_by_id_def split: prod.splits option.splits)

lemma GetBookingByID_snd: "snd (GetBookingByID bid d) = snd (send_stmt (SelectByID bid) d)"
  using conn_select_by_id_snd [of bid d]
  by (auto simp: GetBookingByID_def split: prod.splits option.splits)

lemma GetBookingByID_rows: "rows (snd (GetBookingByID bid d)) = rows d"
  by (simp add: GetBookingByID_snd send_stmt_rows)

lemma GetBookingByID_executed: "executed (snd (GetBookingByID bid d)) = executed d @ [SelectByID bid]"
  by (simp add: GetBookingByID_snd send_stmt_executed)

lemma GetBookingByID_found:
  assumes "GetBookingByID bid d = ((b, None), d1)"
  shows "find (\<lambda>r. ID r = bid) (rows d) = Some b"
  using assms send_stmt_rows [of "SelectByID bid" d]
  by (auto simp: GetBookingByID_def conn_select_by_id_def
           split: prod.splits option.splits if_splits)

lemma GetBookingByID_ok:
  assumes "find (\<lambda>r. ID r = bid) (rows d) = Some b" and "next_fault d = None"
  shows "GetBookingByID bid d = ((b, None), snd (send_stmt (SelectByID bid) d))"
  using assms send_stmt_rows [of "SelectByID bid" d] send_stmt_fst [of "SelectByID bid" d]
  by (auto simp: GetBookingByID_def conn_select_by_id_def
           split: prod.splits option.splits if_splits)

lemma GetBookingByID_errors:
  assumes "snd (fst (GetBookingByID bid d)) = Some e"
  shows "e = ErrBookingNotFound \<or> (\<exists>e'. e = Errorf (''failed to fetch booking with id '' @ bid) e')"
  using assms
  by (auto simp: GetBookingByID_def split: prod.splits option.splits if_splits)

lemma find_ID: "find (\<lambda>r. ID r = bid) xs = Some b \<Longrightarrow> ID b = bid \<and> b \<in> set xs"
  by (induction xs) (auto split: if_splits)

lemma map_unmatched: "filter P xs = [] \<Longrightarrow> map (\<lambda>r. if P r then f r else r) xs = xs"
  by (induction xs) (auto split: if_splits)

lemma find_map_ID:
  assumes "\<And>r. ID (f r) = ID r"
  shows "find (\<lambda>r. ID r = bid) (map (\<lambda>r. if ID r = bid then f r else r) xs)
         = map_option f (find (\<lambda>r. ID r = bid) xs)"
  using assms by (induction xs) auto

lemma SetBookingStatus_snd_executed:
  "executed (snd (SetBookingStatus bid st d)) = executed d @ [UpdateStatus bid st]"
  using send_stmt_executed [of "UpdateStatus bid st" d]
  by (auto simp: SetBookingStatus_def conn_update_status_def split: prod.splits option.splits)

lemma SetBookingStatus_failed:
  assumes "SetBookingStatus bid st d = (Some e, d2)"
  shows "rows d2 = rows d"
  using assms send_stmt_rows [of "UpdateStatus bid st" d]
  by (auto simp: SetBookingStatus_def conn_update_status_def map_unmatched
           split: prod.splits option.splits if_splits)

lemma SetBookingStatus_done:
  assumes "SetBookingStatus bid st d = (None, d2)"
  shows "rows d2 = map (\<lambda>r. if ID r = bid then r\<lparr>Status := st\<rparr> else r) (rows d)"
  using assms send_stmt_rows [of "UpdateStatus bid st" d]
  by (auto simp: SetBookingStatus_def conn_update_status_def
           split: prod.splits option.splits if_splits)

lemma SetBookingStatus_ok:
  assumes "find (\<lambda>r. ID r = bid) (rows d) = Some b" and "next_fault d = None"
  shows "fst (SetBookingStatus bid st d) = None"
proof -
  from assms(1) have "b \<in> set (rows d)" "ID b = bid" using find_ID by auto
  then have "filter (\<lambda>r. ID r = bid) (rows d) \<noteq> []"
    by (auto simp: filter_empty_conv)
  then show ?thesis
    using assms(2) send_stmt_rows [of "UpdateStatus bid st" d] send_stmt_fst [of "UpdateStatus bid st" d]
    by (auto simp: SetBookingStatus_def conn_update_status_def
           split: prod.splits option.splits if_splits)
qed

lemma SetBookingStatus_errors:
  assumes "fst (SetBookingStatus bid st d) = Some e"
  shows "e = ErrBookingNotFound
         \<or> (\<exists>m. e = Errorf (''failed to update booking '' @ [CHR 0x27] @ bid @ [CHR 0x27] @ '' status'') (OpaqueError m))"
  using assms
  by (auto simp: SetBookingStatus_def conn_update_status_def
           split: prod.splits option.splits if_splits)

lemma sendNotification_fst: "fst (sendNotification s b opts w) = None"
  by (simp add: sendNotification_def Let_def split: prod.splits)

lemma sendNotification_conn: "conn (snd (sendNotification s b opts w)) = conn w"
  by (simp add: sendNotification_def Let_def split: prod.splits)

lemma sendNotification_outbox:
  "outbox (snd (sendNotification s b opts w)) =
     outbox w @ [(channelID s,
        \<lparr>Message_Content = [],
         Message_Embeds = [notification_embed s b opts
            (fst (playerTags_loop (client s) (Players b) [] (chatState w)))]\<rparr>)]"
  by (simp add: sendNotification_def Let_def split: prod.splits)


lemma UpdateBooking_errors:
  assumes "fst (UpdateBooking b d) = Some e"
  shows "e = ErrBookingNotFound \<or> (\<exists>m. e = Errorf ''failed to update booking'' (OpaqueError m))"
  using assms
  by (auto simp: UpdateBooking_def conn_update_fields_def
           split: prod.splits option.splits if_splits)

section \<open>Authorization\<close>

lemma slices_Contains_set: "slices_Contains xs v \<longleftrightarrow> v \<in> set xs"
  by (induction xs) auto

lemma checkUserAllowed_iff: "checkUserAllowed b user \<longleftrightarrow> owner_or_player b user"
  by (auto simp: checkUserAllowed_def owner_or_player_def slices_Contains_set)

lemma SetBookingStatus_fault_only:
  assumes "find (\<lambda>r. ID r = bid) (rows d) = Some b"
      and "SetBookingStatus bid st d = (Some e, d2)"
  shows "\<exists>m. e = Errorf (''failed to update booking '' @ [CHR 0x27] @ bid @ [CHR 0x27] @ '' status'')
                 (OpaqueError m)"
proof -
  from assms(1) have "b \<in> set (rows d)" "ID b = bid" using find_ID by auto
  then have "filter (\<lambda>r. ID r = bid) (rows d) \<noteq> []"
    by (auto simp: filter_empty_conv)
  then show ?thesis
    using assms(2) send_stmt_rows [of "UpdateStatus bid st" d]
    by (auto simp: SetBookingStatus_def conn_update_status_def
           split: prod.splits option.splits if_splits)
qed

lemma send_stmt_rows_eq: "send_stmt q d = (f, d') \<Longrightarrow> rows d' = rows d"
  using send_stmt_rows [of q d] by simp

lemma UpdateBooking_done:
  assumes "UpdateBooking b' d = (None, d2)"
  shows "rows d2 =
           map (\<lambda>r. if ID r = ID b'
                     then r\<lparr>Game := Game b', Points := Points b', Description := Description b',
                            ReminderEnabled := ReminderEnabled b',
                            DateTime := pg_timestamp (DateTime b'), Players := Players b'\<rparr>
                     else r) (rows d)"
  using assms
  by (auto simp: UpdateBooking_def conn_update_fields_def
           dest: send_stmt_rows_eq split: prod.splits option.splits if_splits)

lemma find_appended:
  fixes x :: Booking
  assumes "\<forall>r \<in> set xs. ID r \<noteq> k" and "ID x = k"
  shows "find (\<lambda>r. ID r = k) (xs @ [x]) = Some x"
  using assms by (induction xs) auto

lemma conn_insert_done:
  assumes ins: "conn_insert g u n p ds st re dt pl d = ((new_id, None), d')"
  shows "find (\<lambda>r. ID r = new_id) (rows d')
           = Some \<lparr>ID = new_id, Game = g, UserID = u, Username = n, Points = p,
                   Description = ds, Status = st, ReminderEnabled = re,
                   DateTime = pg_timestamp dt, Players = pl\<rparr>"
proof -
  let ?row = "\<lparr>ID = [], Game = g, UserID = u, Username = n, Points = p,
               Description = ds, Status = st, ReminderEnabled = re, DateTime = dt,
               Players = pl\<rparr>"
  obtain f d1 where sent: "send_stmt (InsertRow ?row) d = (f, d1)"
    by (cases "send_stmt (InsertRow ?row) d") blast
  from ins sent have f: "f = None"
    by (cases f) (simp_all add: conn_insert_def)
  have fresh: "\<forall>r \<in> set (rows d1). ID r \<noteq> digits (serial d1)"
  proof (rule ccontr)
    assume "\<not> ?thesis"
    then have "\<exists>r \<in> set (rows d1). ID r = digits (serial d1)" by blast
    with ins sent f show False by (simp add: conn_insert_def)
  qed
  then have no: "\<not> (\<exists>r \<in> set (rows d1). ID r = digits (serial d1))" by blast
  from ins sent f no have nid: "new_id = digits (serial d1)"
    and d': "d' = d1\<lparr>rows := rows d1 @ [?row\<lparr>ID := digits (serial d1),
                                                 DateTime := pg_timestamp dt\<rparr>],
                     serial := Suc (serial d1)\<rparr>"
    by (auto simp: conn_insert_def Let_def)
  have "find (\<lambda>r. ID r = digits (serial d1))
          (rows d1 @ [?row\<lparr>ID := digits (serial d1), DateTime := pg_timestamp dt\<rparr>])
          = Some (?row\<lparr>ID := digits (serial d1), DateTime := pg_timestamp dt\<rparr>)"
    by (rule find_appended [OF fresh]) simp
  with nid d' show ?thesis by simp
qed

lemma InsertBooking_done:
  assumes "InsertBooking booking d = ((booking', None), d')"
  shows "\<exists>new_id. booking' = booking\<lparr>ID := new_id\<rparr>
       \<and> find (\<lambda>r. ID r = new_id) (rows d')
           = Some (booking\<lparr>ID := new_id, Status := ''pending'',
                           DateTime := pg_timestamp (DateTime booking)\<rparr>)"
proof -
  obtain new_id r1 d1 where
    c: "conn_insert (Game booking) (UserID booking) (Username booking) (Points booking)
             (Description booking) ''pending'' (ReminderEnabled booking) (DateTime booking)
             (Players booking) d = ((new_id, r1), d1)"
    by (metis surj_pair)
  from assms c have r1: "r1 = None" by (cases r1) (simp_all add: InsertBooking_def)
  from assms c r1 have eq: "booking' = booking\<lparr>ID := new_id\<rparr>" "d' = d1"
    by (simp_all add: InsertBooking_def)
  have "booking\<lparr>ID := new_id, Status := ''pending'',
                 DateTime := pg_timestamp (DateTime booking)\<rparr>
          = \<lparr>ID = new_id, Game = Game booking, UserID = UserID booking,
             Username = Username booking, Points = Points booking,
             Description = Description booking, Status = ''pending'',
             ReminderEnabled = ReminderEnabled booking,
             DateTime = pg_timestamp (DateTime booking), Players = Players booking\<rparr>"
    by simp
  with conn_insert_done [OF c [unfolded r1]] eq show ?thesis
    by (intro exI [of _ new_id]) simp
qed

section \<open>Creating a booking\<close>

lemma CreateBooking_status:
  assumes "CreateBooking s booking w = ((booking', None), w')"
  shows "Status booking' = Status booking
       \<and> find (\<lambda>r. ID r = ID booking') (rows (conn w'))
           = Some (booking\<lparr>ID := ID booking', Status := ''pending'',
                           DateTime := pg_timestamp (DateTime booking)\<rparr>)"
proof -
  obtain b1 r1 d1 where i: "InsertBooking booking (conn w) = ((b1, r1), d1)"
    by (metis surj_pair)
  from assms i have r1: "r1 = None"
    by (cases r1) (simp_all add: CreateBooking_def case_prod_beta)
  from assms i r1 have b1: "booking' = b1"
    by (simp add: CreateBooking_def case_prod_beta)
  from assms have "conn w' = conn (snd (CreateBooking s booking w))" by simp
  also have "\<dots> = d1"
    using i r1 by (simp add: CreateBooking_def case_prod_beta sendNotification_conn)
  finally have eq: "booking' = b1" "conn w' = d1" using b1 by simp_all
  from InsertBooking_done [OF i [unfolded r1]] obtain new_id where
    "b1 = booking\<lparr>ID := new_id\<rparr>"
    "find (\<lambda>r. ID r = new_id) (rows d1)
       = Some (booking\<lparr>ID := new_id, Status := ''pending'',
                       DateTime := pg_timestamp (DateTime booking)\<rparr>)"
    by blast
  with eq show ?thesis by simp
qed

text \<open>
  Claim C1 does not hold of the code. \<open>CreateBooking\<close> returns what
  \<open>InsertBooking\<close> returns, and \<open>InsertBooking\<close> sends the constant \<open>pending\<close> to
  the database but returns its argument with only the ID filled in
  (\<open>CreateBooking_status\<close> above: the returned status is the caller's, the stored one is
  \<open>pending\<close>). Here a draft with status \<open>accepted\<close> and an ID of the caller's is
  created in an empty table: the call succeeds, the booking returned has the generated ID
  and the status \<open>accepted\<close>, and the row stored is the draft with the generated ID
  and the status \<open>pending\<close>.
\<close>

theorem create_returns_caller_status:
  "snd (fst (CreateBooking example_service (example_booking ''accepted'') empty_world)) = None
   \<and> Status (fst (fst (CreateBooking example_service (example_booking ''accepted'')
                         empty_world))) = ''accepted''
   \<and> ID (fst (fst (CreateBooking example_service (example_booking ''accepted'')
                     empty_world))) = ''1''
   \<and> rows (conn (snd (CreateBooking example_service (example_booking ''accepted'')
                       empty_world)))
       = [(example_booking ''pending'')\<lparr>ID := ''1''\<rparr>]"
  by code_simp

section \<open>The lifecycle operations on an existing booking\<close>

subsection \<open>Terminal statuses\<close>

text \<open>
  Claim C2, as the code has it. Let the lookup of a booking succeed and return a booking
  whose status is \<open>refused\<close> or \<open>canceled\<close>. Then \<open>RefuseBooking\<close>,
  \<open>CancelBooking\<close> and \<open>ModifyBooking\<close> return \<open>ErrInvalidBookingState\<close> and
  leave the world as the lookup left it: the rows are the ones before the call and the
  only statement sent is the \<open>SELECT\<close>. \<open>AcceptBooking\<close> does the same for a
  \<open>canceled\<close> booking; for a \<open>refused\<close> one its guard does not fire: it never
  answers \<open>ErrInvalidBookingState\<close> and goes on to the status write.
\<close>

theorem terminal_statuses:
  assumes found: "GetBookingByID bid (conn w) = ((b, None), d1)"
      and st: "Status b = ''refused'' \<or> Status b = ''canceled''"
      and upd: "ID updated = bid"
  shows "RefuseBooking s bid why w = (Some ErrInvalidBookingState, w\<lparr>conn := d1\<rparr>)
       \<and> CancelBooking s bid user w = (Some ErrInvalidBookingState, w\<lparr>conn := d1\<rparr>)
       \<and> ModifyBooking s updated user w = (Some ErrInvalidBookingState, w\<lparr>conn := d1\<rparr>)
       \<and> (Status b = ''canceled'' \<longrightarrow>
            AcceptBooking s bid w = (Some ErrInvalidBookingState, w\<lparr>conn := d1\<rparr>))
       \<and> (Status b = ''refused'' \<longrightarrow>
            fst (AcceptBooking s bid w) \<noteq> Some ErrInvalidBookingState
            \<and> conn (snd (AcceptBooking s bid w)) = snd (SetBookingStatus bid ''accepted'' d1))
       \<and> rows d1 = rows (conn w)
       \<and> executed d1 = executed (conn w) @ [SelectByID bid]"
proof -
  have refuse: "RefuseBooking s bid why w = (Some ErrInvalidBookingState, w\<lparr>conn := d1\<rparr>)"
    using found st by (auto simp: RefuseBooking_def)
  have cancel: "CancelBooking s bid user w = (Some ErrInvalidBookingState, w\<lparr>conn := d1\<rparr>)"
    using found st by (auto simp: CancelBooking_def)
  have modify: "ModifyBooking s updated user w = (Some ErrInvalidBookingState, w\<lparr>conn := d1\<rparr>)"
    using found st upd by (auto simp: ModifyBooking_def)
  have accept_c: "Status b = ''canceled'' \<longrightarrow>
            AcceptBooking s bid w = (Some ErrInvalidBookingState, w\<lparr>conn := d1\<rparr>)"
    using found by (auto simp: AcceptBooking_def)
  have accept_r: "Status b = ''refused'' \<longrightarrow>
            fst (AcceptBooking s bid w) \<noteq> Some ErrInvalidBookingState"
  proof
    assume r: "Status b = ''refused''"
    show "fst (AcceptBooking s bid w) \<noteq> Some ErrInvalidBookingState"
    proof (cases "SetBookingStatus bid ''accepted'' d1")
      case (Pair r2 d2)
      show ?thesis
      proof (cases r2)
        case None
        with Pair found r show ?thesis
          by (simp add: AcceptBooking_def split: prod.splits)
      next
        case (Some e)
        with Pair have "fst (SetBookingStatus bid ''accepted'' d1) = Some e" by simp
        from SetBookingStatus_errors [OF this] have "e \<noteq> ErrInvalidBookingState" by auto
        with Pair Some found r show ?thesis
          by (simp add: AcceptBooking_def)
      qed
    qed
  qed
  have accept_w: "Status b = ''refused'' \<longrightarrow>
            conn (snd (AcceptBooking s bid w)) = snd (SetBookingStatus bid ''accepted'' d1)"
    using found
    by (simp add: AcceptBooking_def case_prod_beta sendNotification_conn split: option.splits)
  have d1: "d1 = snd (GetBookingByID bid (conn w))" using found by simp
  have frame: "rows d1 = rows (conn w)" "executed d1 = executed (conn w) @ [SelectByID bid]"
    by (simp_all add: d1 GetBookingByID_rows GetBookingByID_executed)
  from refuse cancel modify accept_c accept_r accept_w frame show ?thesis by blast
qed

text \<open>
  The theorem at the canceled booking of the tests: the owner's cancel and modify, a
  refusal and an acceptance are all turned down, and nothing is written.
\<close>

theorem terminal_statuses_witness:
  "GetBookingByID ''123'' (conn (example_world ''canceled'' []))
     = ((example_booking ''canceled'', None),
        snd (GetBookingByID ''123'' (conn (example_world ''canceled'' []))))
   \<and> Status (example_booking ''canceled'') = ''canceled''
   \<and> ID example_update = ''123''
   \<and> RefuseBooking example_service ''123'' ''late'' (example_world ''canceled'' [])
       = (Some ErrInvalidBookingState,
          (example_world ''canceled'' [])
            \<lparr>conn := snd (GetBookingByID ''123'' (conn (example_world ''canceled'' [])))\<rparr>)
   \<and> CancelBooking example_service ''123'' owner_user (example_world ''canceled'' [])
       = (Some ErrInvalidBookingState,
          (example_world ''canceled'' [])
            \<lparr>conn := snd (GetBookingByID ''123'' (conn (example_world ''canceled'' [])))\<rparr>)
   \<and> ModifyBooking example_service example_update owner_user (example_world ''canceled'' [])
       = (Some ErrInvalidBookingState,
          (example_world ''canceled'' [])
            \<lparr>conn := snd (GetBookingByID ''123'' (conn (example_world ''canceled'' [])))\<rparr>)
   \<and> AcceptBooking example_service ''123'' (example_world ''canceled'' [])
       = (Some ErrInvalidBookingState,
          (example_world ''canceled'' [])
            \<lparr>conn := snd (GetBookingByID ''123'' (conn (example_world ''canceled'' [])))\<rparr>)
   \<and> rows (snd (GetBookingByID ''123'' (conn (example_world ''canceled'' []))))
       = rows (conn (example_world ''canceled'' []))
   \<and> executed (snd (GetBookingByID ''123'' (conn (example_world ''canceled'' []))))
       = executed (conn (example_world ''canceled'' [])) @ [SelectByID ''123'']"
proof -
  have h1: "GetBookingByID ''123'' (conn (example_world ''canceled'' []))
     = ((example_booking ''canceled'', None),
        snd (GetBookingByID ''123'' (conn (example_world ''canceled'' []))))"
    by code_simp
  have h2: "Status (example_booking ''canceled'') = ''canceled''" by code_simp
  have h3: "ID example_update = ''123''" by code_simp
  from terminal_statuses [OF h1 disjI2 [OF h2] h3, of example_service "''late''" owner_user]
    h1 h2 h3
  show ?thesis by blast
qed

text \<open>
  Claim C2 as the specification states it fails: a booking that was refused is accepted.
  \<open>AcceptBooking\<close> on the refused booking of the tests returns \<open>nil\<close>, sends the
  \<open>UPDATE\<close>, and the stored status becomes \<open>accepted\<close>.
\<close>

theorem accept_refused_counterexample:
  "fst (AcceptBooking example_service ''123'' (example_world ''refused'' [])) = None
   \<and> map Status
         (rows (conn (snd (AcceptBooking example_service ''123'' (example_world ''refused'' [])))))
       = [''accepted'']
   \<and> executed (conn (snd (AcceptBooking example_service ''123'' (example_world ''refused'' []))))
       = [SelectByID ''123'', UpdateStatus ''123'' ''accepted'']"
  by code_simp

subsection \<open>Who may modify or cancel\<close>

text \<open>
  Claim C3. \<open>checkUserAllowed\<close> holds exactly for the owner (the caller's ID is the
  booking's user ID) and for a listed player (the caller's username is among the
  players). Let the lookup succeed. Where the state check of \<open>ModifyBooking\<close> passes
  (status \<open>pending\<close>), the answer is \<open>ErrNotAllowed\<close> exactly when the caller is
  neither, and then the world is as the lookup left it: the rows are unchanged and the
  only statement sent is the \<open>SELECT\<close>. The same holds for \<open>CancelBooking\<close> where
  its state check passes (status neither \<open>canceled\<close> nor \<open>refused\<close>).
\<close>

theorem authorization:
  assumes found: "GetBookingByID bid (conn w) = ((b, None), d1)"
      and upd: "ID updated = bid"
  shows "(checkUserAllowed b user \<longleftrightarrow> owner_or_player b user)
       \<and> (Status b = ''pending'' \<longrightarrow>
            (fst (ModifyBooking s updated user w) = Some ErrNotAllowed
               \<longleftrightarrow> \<not> owner_or_player b user))
       \<and> (Status b = ''pending'' \<and> \<not> owner_or_player b user \<longrightarrow>
            ModifyBooking s updated user w = (Some ErrNotAllowed, w\<lparr>conn := d1\<rparr>))
       \<and> (Status b \<noteq> ''canceled'' \<and> Status b \<noteq> ''refused'' \<longrightarrow>
            (fst (CancelBooking s bid user w) = Some ErrNotAllowed
               \<longleftrightarrow> \<not> owner_or_player b user))
       \<and> (Status b \<noteq> ''canceled'' \<and> Status b \<noteq> ''refused'' \<and> \<not> owner_or_player b user \<longrightarrow>
            CancelBooking s bid user w = (Some ErrNotAllowed, w\<lparr>conn := d1\<rparr>))
       \<and> rows d1 = rows (conn w)
       \<and> executed d1 = executed (conn w) @ [SelectByID bid]"
proof -
  have modify_denied: "ModifyBooking s updated user w = (Some ErrNotAllowed, w\<lparr>conn := d1\<rparr>)"
    if "Status b = ''pending''" "\<not> owner_or_player b user"
    using found upd that by (simp add: ModifyBooking_def checkUserAllowed_iff)
  have modify_allowed: "fst (ModifyBooking s updated user w) \<noteq> Some ErrNotAllowed"
    if p: "Status b = ''pending''" and a: "owner_or_player b user"
  proof -
    let ?b' = "b\<lparr>Game := Game updated, Points := Points updated,
                  Description := Description updated,
                  ReminderEnabled := ReminderEnabled updated,
                  DateTime := DateTime updated, Players := Players updated\<rparr>"
    show ?thesis
    proof (cases "UpdateBooking ?b' d1")
      case (Pair r2 d2)
      show ?thesis
      proof (cases r2)
        case None
        with Pair found upd p a show ?thesis
          by (simp add: ModifyBooking_def checkUserAllowed_iff Let_def split: prod.splits)
      next
        case (Some e)
        with Pair have "fst (UpdateBooking ?b' d1) = Some e" by simp
        from UpdateBooking_errors [OF this] have "e \<noteq> ErrNotAllowed" by auto
        with Pair Some found upd p a show ?thesis
          by (simp add: ModifyBooking_def checkUserAllowed_iff Let_def)
      qed
    qed
  qed
  have cancel_denied: "CancelBooking s bid user w = (Some ErrNotAllowed, w\<lparr>conn := d1\<rparr>)"
    if "Status b \<noteq> ''canceled''" "Status b \<noteq> ''refused''" "\<not> owner_or_player b user"
    using found that by (simp add: CancelBooking_def checkUserAllowed_iff)
  have cancel_allowed: "fst (CancelBooking s bid user w) \<noteq> Some ErrNotAllowed"
    if "Status b \<noteq> ''canceled''" "Status b \<noteq> ''refused''" "owner_or_player b user"
    using found that
    by (auto simp: CancelBooking_def checkUserAllowed_iff split: prod.splits option.splits)
  have d1: "d1 = snd (GetBookingByID bid (conn w))" using found by simp
  have frame: "rows d1 = rows (conn w)" "executed d1 = executed (conn w) @ [SelectByID bid]"
    by (simp_all add: d1 GetBookingByID_rows GetBookingByID_executed)
  have m_iff: "Status b = ''pending'' \<longrightarrow>
            (fst (ModifyBooking s updated user w) = Some ErrNotAllowed
               \<longleftrightarrow> \<not> owner_or_player b user)"
    using modify_denied modify_allowed by (metis fst_conv)
  have c_iff: "Status b \<noteq> ''canceled'' \<and> Status b \<noteq> ''refused'' \<longrightarrow>
            (fst (CancelBooking s bid user w) = Some ErrNotAllowed
               \<longleftrightarrow> \<not> owner_or_player b user)"
    using cancel_denied cancel_allowed by (metis fst_conv)
  from checkUserAllowed_iff [of b user] m_iff c_iff modify_denied cancel_denied frame
  show ?thesis by blast
qed

text \<open>The theorem at the pending booking of the tests and a user unrelated to it.\<close>

theorem authorization_witness:
  "GetBookingByID ''123'' (conn (example_world ''pending'' []))
     = ((example_booking ''pending'', None),
        snd (GetBookingByID ''123'' (conn (example_world ''pending'' []))))
   \<and> ID example_update = ''123''
   \<and> Status (example_booking ''pending'') = ''pending''
   \<and> \<not> owner_or_player (example_booking ''pending'') other_user
   \<and> \<not> checkUserAllowed (example_booking ''pending'') other_user
   \<and> ModifyBooking example_service example_update other_user (example_world ''pending'' [])
       = (Some ErrNotAllowed,
          (example_world ''pending'' [])
            \<lparr>conn := snd (GetBookingByID ''123'' (conn (example_world ''pending'' [])))\<rparr>)
   \<and> CancelBooking example_service ''123'' other_user (example_world ''pending'' [])
       = (Some ErrNotAllowed,
          (example_world ''pending'' [])
            \<lparr>conn := snd (GetBookingByID ''123'' (conn (example_world ''pending'' [])))\<rparr>)
   \<and> rows (snd (GetBookingByID ''123'' (conn (example_world ''pending'' []))))
       = rows (conn (example_world ''pending'' []))
   \<and> executed (snd (GetBookingByID ''123'' (conn (example_world ''pending'' []))))
       = executed (conn (example_world ''pending'' [])) @ [SelectByID ''123'']"
proof -
  have h1: "GetBookingByID ''123'' (conn (example_world ''pending'' []))
     = ((example_booking ''pending'', None),
        snd (GetBookingByID ''123'' (conn (example_world ''pending'' []))))"
    by code_simp
  have h2: "ID example_update = ''123''" by code_simp
  have h3: "Status (example_booking ''pending'') = ''pending''" by code_simp
  have h4: "\<not> owner_or_player (example_booking ''pending'') other_user" by code_simp
  have h5: "Status (example_booking ''pending'') \<noteq> ''canceled''"
    "Status (example_booking ''pending'') \<noteq> ''refused''" by code_simp+
  from authorization [OF h1 h2, of other_user example_service] h1 h2 h3 h4 h5
  show ?thesis by blast
qed

subsection \<open>Accepting\<close>

text \<open>
  Claim C4. Let the lookup succeed. \<open>AcceptBooking\<close> answers
  \<open>ErrInvalidBookingState\<close> exactly when the status is \<open>accepted\<close> or
  \<open>canceled\<close>. For every other status it sends the status update; when the connection
  does not fail that statement the call returns \<open>nil\<close>, the stored booking is the one
  found with status \<open>accepted\<close>, and no other row has changed.
\<close>

theorem accept_guard:
  assumes found: "GetBookingByID bid (conn w) = ((b, None), d1)"
  shows "(fst (AcceptBooking s bid w) = Some ErrInvalidBookingState
            \<longleftrightarrow> Status b = ''accepted'' \<or> Status b = ''canceled'')
       \<and> (Status b \<noteq> ''accepted'' \<and> Status b \<noteq> ''canceled'' \<and> next_fault d1 = None \<longrightarrow>
            fst (AcceptBooking s bid w) = None
            \<and> find (\<lambda>r. ID r = bid) (rows (conn (snd (AcceptBooking s bid w))))
                = Some (b\<lparr>Status := ''accepted''\<rparr>)
            \<and> rows (conn (snd (AcceptBooking s bid w)))
                = map (\<lambda>r. if ID r = bid then r\<lparr>Status := ''accepted''\<rparr> else r) (rows (conn w)))"
proof -
  have d1: "d1 = snd (GetBookingByID bid (conn w))" using found by simp
  have rows1: "rows d1 = rows (conn w)" by (simp add: d1 GetBookingByID_rows)
  have stored: "find (\<lambda>r. ID r = bid) (rows d1) = Some b"
    using GetBookingByID_found [OF found] rows1 by simp
  have rejected: "fst (AcceptBooking s bid w) = Some ErrInvalidBookingState"
    if "Status b = ''accepted'' \<or> Status b = ''canceled''"
    using found that by (auto simp: AcceptBooking_def)
  have passed: "fst (AcceptBooking s bid w) \<noteq> Some ErrInvalidBookingState"
    if g: "Status b \<noteq> ''accepted''" "Status b \<noteq> ''canceled''"
  proof (cases "SetBookingStatus bid ''accepted'' d1")
    case (Pair r2 d2)
    show ?thesis
    proof (cases r2)
      case None
      with Pair found g show ?thesis
        by (simp add: AcceptBooking_def split: prod.splits)
    next
      case (Some e)
      with Pair have "fst (SetBookingStatus bid ''accepted'' d1) = Some e" by simp
      from SetBookingStatus_errors [OF this] have "e \<noteq> ErrInvalidBookingState" by auto
      with Pair Some found g show ?thesis
        by (simp add: AcceptBooking_def)
    qed
  qed
  have accepted: "fst (AcceptBooking s bid w) = None
            \<and> find (\<lambda>r. ID r = bid) (rows (conn (snd (AcceptBooking s bid w))))
                = Some (b\<lparr>Status := ''accepted''\<rparr>)
            \<and> rows (conn (snd (AcceptBooking s bid w)))
                = map (\<lambda>r. if ID r = bid then r\<lparr>Status := ''accepted''\<rparr> else r) (rows (conn w))"
    if g: "Status b \<noteq> ''accepted''" "Status b \<noteq> ''canceled''" and nf: "next_fault d1 = None"
  proof -
    obtain d2 where set: "SetBookingStatus bid ''accepted'' d1 = (None, d2)"
      using SetBookingStatus_ok [OF stored nf, of "''accepted''"]
      by (cases "SetBookingStatus bid ''accepted'' d1") auto
    have rows2: "rows d2 = map (\<lambda>r. if ID r = bid then r\<lparr>Status := ''accepted''\<rparr> else r) (rows (conn w))"
      using SetBookingStatus_done [OF set] rows1 by simp
    have res: "fst (AcceptBooking s bid w) = None"
      using found g set by (simp add: AcceptBooking_def split: prod.splits)
    have after: "conn (snd (AcceptBooking s bid w)) = d2"
      using found g set
      by (simp add: AcceptBooking_def case_prod_beta sendNotification_conn)
    have "find (\<lambda>r. ID r = bid) (rows d2) = Some (b\<lparr>Status := ''accepted''\<rparr>)"
      using find_map_ID [of "\<lambda>r. r\<lparr>Status := ''accepted''\<rparr>" bid "rows (conn w)"]
        GetBookingByID_found [OF found] rows2 by simp
    with res after rows2 show ?thesis by simp
  qed
  from rejected passed accepted show ?thesis by blast
qed

text \<open>The theorem at the pending booking of the tests.\<close>

theorem accept_guard_witness:
  "GetBookingByID ''123'' (conn (example_world ''pending'' []))
     = ((example_booking ''pending'', None),
        snd (GetBookingByID ''123'' (conn (example_world ''pending'' []))))
   \<and> Status (example_booking ''pending'') \<noteq> ''accepted''
   \<and> Status (example_booking ''pending'') \<noteq> ''canceled''
   \<and> next_fault (snd (GetBookingByID ''123'' (conn (example_world ''pending'' [])))) = None
   \<and> fst (AcceptBooking example_service ''123'' (example_world ''pending'' [])) = None
   \<and> find (\<lambda>r. ID r = ''123'')
        (rows (conn (snd (AcceptBooking example_service ''123'' (example_world ''pending'' [])))))
       = Some ((example_booking ''pending'')\<lparr>Status := ''accepted''\<rparr>)"
proof -
  have h1: "GetBookingByID ''123'' (conn (example_world ''pending'' []))
     = ((example_booking ''pending'', None),
        snd (GetBookingByID ''123'' (conn (example_world ''pending'' []))))"
    by code_simp
  have h2: "Status (example_booking ''pending'') \<noteq> ''accepted''"
    "Status (example_booking ''pending'') \<noteq> ''canceled''" by code_simp+
  have h3: "next_fault (snd (GetBookingByID ''123'' (conn (example_world ''pending'' [])))) = None"
    by code_simp
  from accept_guard [OF h1, of example_service] h1 h2 h3
  show ?thesis by blast
qed

subsection \<open>Modifying needs a pending booking\<close>

text \<open>
  Claim C5. Let the lookup succeed and return a booking whose status is not exactly
  \<open>pending\<close>. Then \<open>ModifyBooking\<close> returns \<open>ErrInvalidBookingState\<close>, for every
  caller, allowed or not (the state check comes before the authorization check), and
  before any write: the rows are unchanged and the only statement sent is the
  \<open>SELECT\<close>.
\<close>

theorem modify_requires_pending:
  assumes found: "GetBookingByID (ID updated) (conn w) = ((b, None), d1)"
      and st: "Status b \<noteq> ''pending''"
  shows "ModifyBooking s updated user w = (Some ErrInvalidBookingState, w\<lparr>conn := d1\<rparr>)
       \<and> rows d1 = rows (conn w)
       \<and> executed d1 = executed (conn w) @ [SelectByID (ID updated)]"
proof -
  have d1: "d1 = snd (GetBookingByID (ID updated) (conn w))" using found by simp
  have "ModifyBooking s updated user w = (Some ErrInvalidBookingState, w\<lparr>conn := d1\<rparr>)"
    using found st by (simp add: ModifyBooking_def)
  then show ?thesis
    by (simp add: d1 GetBookingByID_rows GetBookingByID_executed)
qed

text \<open>
  The theorem at the status \<open>approved\<close> of the tests, with a caller who would not be
  allowed either.
\<close>

theorem modify_requires_pending_witness:
  "GetBookingByID (ID example_update) (conn (example_world ''approved'' []))
     = ((example_booking ''approved'', None),
        snd (GetBookingByID (ID example_update) (conn (example_world ''approved'' []))))
   \<and> Status (example_booking ''approved'') \<noteq> ''pending''
   \<and> \<not> checkUserAllowed (example_booking ''approved'') other_user
   \<and> ModifyBooking example_service example_update other_user (example_world ''approved'' [])
       = (Some ErrInvalidBookingState,
          (example_world ''approved'' [])
            \<lparr>conn := snd (GetBookingByID (ID example_update)
                            (conn (example_world ''approved'' [])))\<rparr>)
   \<and> rows (snd (GetBookingByID (ID example_update) (conn (example_world ''approved'' []))))
       = rows (conn (example_world ''approved'' []))
   \<and> executed (snd (GetBookingByID (ID example_update) (conn (example_world ''approved'' []))))
       = executed (conn (example_world ''approved'' [])) @ [SelectByID (ID example_update)]"
proof -
  have h1: "GetBookingByID (ID example_update) (conn (example_world ''approved'' []))
     = ((example_booking ''approved'', None),
        snd (GetBookingByID (ID example_update) (conn (example_world ''approved'' []))))"
    by code_simp
  have h2: "Status (example_booking ''approved'') \<noteq> ''pending''" by code_simp
  have h3: "\<not> checkUserAllowed (example_booking ''approved'') other_user" by code_simp
  from modify_requires_pending [OF h1 h2, of example_service other_user] h1 h2 h3
  show ?thesis by blast
qed

subsection \<open>Canceling\<close>

lemma cancel_message_differs:
  "''failed to cancel booking'' \<noteq> ''failed to fetch booking with id '' @ bid"
  by simp

text \<open>
  Claim C6. Let the lookup succeed. For a booking that is \<open>canceled\<close> or
  \<open>refused\<close>, \<open>CancelBooking\<close> returns \<open>ErrInvalidBookingState\<close> whoever the
  caller is. When the state and authorization checks pass and \<open>SetBookingStatus\<close>
  fails with \<open>e\<close>, the call returns \<open>e\<close> wrapped under the message
  \<open>failed to cancel booking\<close>; that error is no error a lookup can return, it neither
  is nor wraps \<open>ErrBookingNotFound\<close>, and the rows are the ones before the call.
\<close>

theorem cancel_errors:
  assumes found: "GetBookingByID bid (conn w) = ((b, None), d1)"
  shows "(Status b = ''canceled'' \<or> Status b = ''refused'' \<longrightarrow>
            CancelBooking s bid user w = (Some ErrInvalidBookingState, w\<lparr>conn := d1\<rparr>))
       \<and> (Status b \<noteq> ''canceled'' \<and> Status b \<noteq> ''refused'' \<and> checkUserAllowed b user
            \<and> SetBookingStatus bid ''canceled'' d1 = (Some e, d') \<longrightarrow>
            CancelBooking s bid user w
              = (Some (Errorf ''failed to cancel booking'' e), w\<lparr>conn := d'\<rparr>)
            \<and> Error (Errorf ''failed to cancel booking'' e)
                = ''failed to cancel booking: '' @ Error e
            \<and> errors_Is (Errorf ''failed to cancel booking'' e) e
            \<and> (\<forall>bid' d. snd (fst (GetBookingByID bid' d))
                          \<noteq> Some (Errorf ''failed to cancel booking'' e))
            \<and> \<not> errors_Is (Errorf ''failed to cancel booking'' e) ErrBookingNotFound
            \<and> rows d' = rows (conn w))"
proof -
  have d1: "d1 = snd (GetBookingByID bid (conn w))" using found by simp
  have rows1: "rows d1 = rows (conn w)" by (simp add: d1 GetBookingByID_rows)
  have state_first: "CancelBooking s bid user w = (Some ErrInvalidBookingState, w\<lparr>conn := d1\<rparr>)"
    if "Status b = ''canceled'' \<or> Status b = ''refused''"
    using found that by (auto simp: CancelBooking_def)
  have wrapped: "CancelBooking s bid user w
              = (Some (Errorf ''failed to cancel booking'' e), w\<lparr>conn := d'\<rparr>)"
    if "Status b \<noteq> ''canceled''" "Status b \<noteq> ''refused''" "checkUserAllowed b user"
       "SetBookingStatus bid ''canceled'' d1 = (Some e, d')"
    using found that by (simp add: CancelBooking_def)
  have msg: "Error (Errorf ''failed to cancel booking'' e) = ''failed to cancel booking: '' @ Error e"
    by simp
  have unwrap: "errors_Is (Errorf ''failed to cancel booking'' e) e"
    by (cases e) simp_all
  have distinct: "snd (fst (GetBookingByID bid' d)) \<noteq> Some (Errorf ''failed to cancel booking'' e)"
    for bid' d
  proof
    assume "snd (fst (GetBookingByID bid' d)) = Some (Errorf ''failed to cancel booking'' e)"
    from GetBookingByID_errors [OF this] show False by simp
  qed
  have unchanged: "rows d' = rows (conn w)"
    if "SetBookingStatus bid ''canceled'' d1 = (Some e, d')"
    using SetBookingStatus_failed [OF that] rows1 by simp
  have not_lookup: "\<not> errors_Is (Errorf ''failed to cancel booking'' e) ErrBookingNotFound"
    if "SetBookingStatus bid ''canceled'' d1 = (Some e, d')"
  proof -
    have "find (\<lambda>r. ID r = bid) (rows d1) = Some b"
      using GetBookingByID_found [OF found] rows1 by simp
    from SetBookingStatus_fault_only [OF this that] show ?thesis by auto
  qed
  from state_first wrapped msg unwrap distinct not_lookup unchanged show ?thesis by blast
qed

text \<open>
  The theorem twice: at a refused booking and a caller who is not allowed, and at a
  pending booking canceled by a listed player while the connection fails the
  \<open>UPDATE\<close>.
\<close>

theorem cancel_errors_witness:
  "GetBookingByID ''123'' (conn (example_world ''refused'' []))
     = ((example_booking ''refused'', None),
        snd (GetBookingByID ''123'' (conn (example_world ''refused'' []))))
   \<and> Status (example_booking ''refused'') = ''refused''
   \<and> \<not> checkUserAllowed (example_booking ''refused'') other_user
   \<and> CancelBooking example_service ''123'' other_user (example_world ''refused'' [])
       = (Some ErrInvalidBookingState,
          (example_world ''refused'' [])
            \<lparr>conn := snd (GetBookingByID ''123'' (conn (example_world ''refused'' [])))\<rparr>)
   \<and> GetBookingByID ''123'' (conn (example_world ''pending'' [None, Some ''connection lost'']))
     = ((example_booking ''pending'', None),
        snd (GetBookingByID ''123'' (conn (example_world ''pending'' [None, Some ''connection lost'']))))
   \<and> checkUserAllowed (example_booking ''pending'') player_user
   \<and> SetBookingStatus ''123'' ''canceled''
         (snd (GetBookingByID ''123'' (conn (example_world ''pending'' [None, Some ''connection lost'']))))
       = (Some (Errorf ''failed to update booking '123' status'' (OpaqueError ''connection lost'')),
          snd (SetBookingStatus ''123'' ''canceled''
                 (snd (GetBookingByID ''123''
                         (conn (example_world ''pending'' [None, Some ''connection lost'']))))))
   \<and> fst (CancelBooking example_service ''123'' player_user
              (example_world ''pending'' [None, Some ''connection lost'']))
       = Some (Errorf ''failed to cancel booking''
                 (Errorf ''failed to update booking '123' status'' (OpaqueError ''connection lost'')))
   \<and> rows (snd (SetBookingStatus ''123'' ''canceled''
                 (snd (GetBookingByID ''123''
                         (conn (example_world ''pending'' [None, Some ''connection lost'']))))))
       = rows (conn (example_world ''pending'' [None, Some ''connection lost'']))"
proof -
  let ?w = "example_world ''pending'' [None, Some ''connection lost'']"
  let ?e = "Errorf ''failed to update booking '123' status'' (OpaqueError ''connection lost'')"
  have h1: "GetBookingByID ''123'' (conn (example_world ''refused'' []))
     = ((example_booking ''refused'', None),
        snd (GetBookingByID ''123'' (conn (example_world ''refused'' []))))"
    by code_simp
  have h2: "Status (example_booking ''refused'') = ''refused''" by code_simp
  have h3: "\<not> checkUserAllowed (example_booking ''refused'') other_user" by code_simp
  have k1: "GetBookingByID ''123'' (conn ?w)
     = ((example_booking ''pending'', None), snd (GetBookingByID ''123'' (conn ?w)))"
    by code_simp
  have k2: "Status (example_booking ''pending'') \<noteq> ''canceled''"
    "Status (example_booking ''pending'') \<noteq> ''refused''" by code_simp+
  have k3: "checkUserAllowed (example_booking ''pending'') player_user" by code_simp
  have k4: "SetBookingStatus ''123'' ''canceled'' (snd (GetBookingByID ''123'' (conn ?w)))
       = (Some ?e, snd (SetBookingStatus ''123'' ''canceled'' (snd (GetBookingByID ''123'' (conn ?w)))))"
    by code_simp
  from cancel_errors [OF h1, where s = example_service and user = other_user] h2
  have a: "CancelBooking example_service ''123'' other_user (example_world ''refused'' [])
       = (Some ErrInvalidBookingState,
          (example_world ''refused'' [])
            \<lparr>conn := snd (GetBookingByID ''123'' (conn (example_world ''refused'' [])))\<rparr>)"
    by blast
  from cancel_errors [OF k1, where s = example_service and user = player_user and e = ?e
      and d' = "snd (SetBookingStatus ''123'' ''canceled'' (snd (GetBookingByID ''123'' (conn ?w))))"]
    k2 k3 k4
  have b: "CancelBooking example_service ''123'' player_user ?w
       = (Some (Errorf ''failed to cancel booking'' ?e),
          ?w\<lparr>conn := snd (SetBookingStatus ''123'' ''canceled''
                             (snd (GetBookingByID ''123'' (conn ?w))))\<rparr>)"
    and c: "rows (snd (SetBookingStatus ''123'' ''canceled'' (snd (GetBookingByID ''123'' (conn ?w)))))
       = rows (conn ?w)"
    by blast+
  from b have b': "fst (CancelBooking example_service ''123'' player_user ?w)
       = Some (Errorf ''failed to cancel booking'' ?e)" by simp
  from h1 h2 h3 a k1 k3 k4 b' c show ?thesis by blast
qed

subsection \<open>What a modification writes\<close>

lemma ModifyBooking_success:
  assumes ok: "ModifyBooking s updated user w = (None, w')"
  obtains b d1 d2 where
    "GetBookingByID (ID updated) (conn w) = ((b, None), d1)"
    "Status b = ''pending''" "checkUserAllowed b user"
    "UpdateBooking (b\<lparr>Game := Game updated, Points := Points updated,
                      Description := Description updated,
                      ReminderEnabled := ReminderEnabled updated,
                      DateTime := DateTime updated, Players := Players updated\<rparr>) d1 = (None, d2)"
    "conn w' = d2"
proof -
  obtain b r1 d1 where g: "GetBookingByID (ID updated) (conn w) = ((b, r1), d1)"
    by (metis surj_pair)
  let ?b' = "b\<lparr>Game := Game updated, Points := Points updated,
                      Description := Description updated,
                      ReminderEnabled := ReminderEnabled updated,
                      DateTime := DateTime updated, Players := Players updated\<rparr>"
  obtain r2 d2 where u: "UpdateBooking ?b' d1 = (r2, d2)" by (metis surj_pair)
  from ok g have r1: "r1 = None"
    by (cases r1) (simp_all add: ModifyBooking_def)
  from ok g r1 have p: "Status b = ''pending''"
    by (auto simp: ModifyBooking_def split: if_splits)
  from ok g r1 p have a: "checkUserAllowed b user"
    by (auto simp: ModifyBooking_def split: if_splits)
  from ok g r1 p a u have r2: "r2 = None"
    by (cases r2) (simp_all add: ModifyBooking_def Let_def)
  from ok g r1 p a u r2 have "conn w' = d2"
    by (auto simp: ModifyBooking_def Let_def case_prod_beta sendNotification_conn)
  with g r1 p a u r2 that show thesis by blast
qed

text \<open>
  Claim C7, as the code has it. After a successful \<open>ModifyBooking\<close>, the stored
  booking with the ID of the request has the game, points, description, reminder flag
  and players of the request, and its date-time as the timestamp column keeps it: cut to
  whole microseconds, hence the request's own date-time whenever that has no nanoseconds
  below the microsecond. The ID, owner's user ID, owner's username and status are the
  ones it had before. Every row of the table is either untouched or changed in those six
  columns only.
\<close>

theorem modify_frame:
  assumes ok: "ModifyBooking s updated user w = (None, w')"
  shows "\<exists>b b'. find (\<lambda>r. ID r = ID updated) (rows (conn w)) = Some b
          \<and> find (\<lambda>r. ID r = ID updated) (rows (conn w')) = Some b'
          \<and> ID b' = ID b \<and> UserID b' = UserID b \<and> Username b' = Username b
          \<and> Status b' = Status b
          \<and> Game b' = Game updated \<and> Points b' = Points updated
          \<and> Description b' = Description updated
          \<and> ReminderEnabled b' = ReminderEnabled updated
          \<and> DateTime b' = pg_timestamp (DateTime updated)
          \<and> (DateTime updated mod 1000 = 0 \<longrightarrow> DateTime b' = DateTime updated)
          \<and> Players b' = Players updated
          \<and> rows (conn w') =
               map (\<lambda>r. if ID r = ID updated
                         then r\<lparr>Game := Game updated, Points := Points updated,
                                Description := Description updated,
                                ReminderEnabled := ReminderEnabled updated,
                                DateTime := pg_timestamp (DateTime updated),
                                Players := Players updated\<rparr>
                         else r) (rows (conn w))"
proof -
  let ?f = "\<lambda>r. r\<lparr>Game := Game updated, Points := Points updated,
                    Description := Description updated,
                    ReminderEnabled := ReminderEnabled updated,
                    DateTime := DateTime updated, Players := Players updated\<rparr>"
  let ?g = "\<lambda>r. r\<lparr>Game := Game updated, Points := Points updated,
                    Description := Description updated,
                    ReminderEnabled := ReminderEnabled updated,
                    DateTime := pg_timestamp (DateTime updated),
                    Players := Players updated\<rparr>"
  from ok obtain b d1 d2 where
    g: "GetBookingByID (ID updated) (conn w) = ((b, None), d1)" and
    u: "UpdateBooking (?f b) d1 = (None, d2)" and
    c: "conn w' = d2"
    by (rule ModifyBooking_success)
  have before: "find (\<lambda>r. ID r = ID updated) (rows (conn w)) = Some b"
    by (rule GetBookingByID_found [OF g])
  then have idb: "ID b = ID updated" using find_ID by auto
  have "rows d1 = rows (conn w)"
    using g GetBookingByID_rows [of "ID updated" "conn w"] by simp
  with UpdateBooking_done [OF u] idb c
  have rows': "rows (conn w') = map (\<lambda>r. if ID r = ID updated then ?g r else r) (rows (conn w))"
    by simp
  have after: "find (\<lambda>r. ID r = ID updated) (rows (conn w')) = Some (?g b)"
    using find_map_ID [of ?g "ID updated" "rows (conn w)"] before rows' by simp
  have aligned: "DateTime updated mod 1000 = 0 \<longrightarrow> pg_timestamp (DateTime updated) = DateTime updated"
    by (auto simp: pg_timestamp_def)
  show ?thesis
    apply (rule exI [of _ b])
    apply (rule exI [of _ "?g b"])
    using before after rows' aligned apply simp
    done
qed

text \<open>
  The theorem twice, at the pending booking of the tests modified by its owner with a
  request that also carries another owner and another status: once with a date-time of
  5 nanoseconds, which is stored as 0, and once with a date-time of 5000 nanoseconds,
  which is stored as it is.
\<close>

theorem modify_frame_witness:
  "ModifyBooking example_service example_update owner_user (example_world ''pending'' [])
     = (None, snd (ModifyBooking example_service example_update owner_user
                     (example_world ''pending'' [])))
   \<and> (\<exists>b b'. find (\<lambda>r. ID r = ID example_update) (rows (conn (example_world ''pending'' [])))
                 = Some b
          \<and> find (\<lambda>r. ID r = ID example_update)
               (rows (conn (snd (ModifyBooking example_service example_update owner_user
                                   (example_world ''pending'' []))))) = Some b'
          \<and> ID b' = ID b \<and> UserID b' = UserID b \<and> Username b' = Username b
          \<and> Status b' = Status b
          \<and> Game b' = Game example_update \<and> Points b' = Points example_update
          \<and> Description b' = Description example_update
          \<and> ReminderEnabled b' = ReminderEnabled example_update
          \<and> DateTime b' = pg_timestamp (DateTime example_update)
          \<and> Players b' = Players example_update)
   \<and> rows (conn (snd (ModifyBooking example_service example_update owner_user
                         (example_world ''pending'' []))))
       = [\<lparr>ID = ''123'', Game = ''modified'', UserID = ''user1ID'', Username = ''user1'',
           Points = 20, Description = [], Status = ''pending'', ReminderEnabled = False,
           DateTime = 0, Players = [''user1'']\<rparr>]
   \<and> ModifyBooking example_service (example_update\<lparr>DateTime := 5000\<rparr>) owner_user
         (example_world ''pending'' [])
     = (None, snd (ModifyBooking example_service (example_update\<lparr>DateTime := 5000\<rparr>)
                     owner_user (example_world ''pending'' [])))
   \<and> DateTime (example_update\<lparr>DateTime := 5000\<rparr>) mod 1000 = 0
   \<and> (\<exists>b'. find (\<lambda>r. ID r = ID (example_update\<lparr>DateTime := 5000\<rparr>))
               (rows (conn (snd (ModifyBooking example_service
                                   (example_update\<lparr>DateTime := 5000\<rparr>) owner_user
                                   (example_world ''pending'' []))))) = Some b'
          \<and> DateTime b' = DateTime (example_update\<lparr>DateTime := 5000\<rparr>))"
proof -
  let ?u = "example_update\<lparr>DateTime := 5000\<rparr>"
  have h1: "ModifyBooking example_service example_update owner_user (example_world ''pending'' [])
     = (None, snd (ModifyBooking example_service example_update owner_user
                     (example_world ''pending'' [])))"
    by code_simp
  have h2: "rows (conn (snd (ModifyBooking example_service example_update owner_user
                         (example_world ''pending'' []))))
       = [\<lparr>ID = ''123'', Game = ''modified'', UserID = ''user1ID'', Username = ''user1'',
           Points = 20, Description = [], Status = ''pending'', ReminderEnabled = False,
           DateTime = 0, Players = [''user1'']\<rparr>]"
    by code_simp
  have k1: "ModifyBooking example_service ?u owner_user (example_world ''pending'' [])
     = (None, snd (ModifyBooking example_service ?u owner_user (example_world ''pending'' [])))"
    by code_simp
  have k2: "DateTime ?u mod 1000 = 0" by code_simp
  from modify_frame [OF h1]
  have a: "\<exists>b b'. find (\<lambda>r. ID r = ID example_update) (rows (conn (example_world ''pending'' [])))
                 = Some b
          \<and> find (\<lambda>r. ID r = ID example_update)
               (rows (conn (snd (ModifyBooking example_service example_update owner_user
                                   (example_world ''pending'' []))))) = Some b'
          \<and> ID b' = ID b \<and> UserID b' = UserID b \<and> Username b' = Username b
          \<and> Status b' = Status b
          \<and> Game b' = Game example_update \<and> Points b' = Points example_update
          \<and> Description b' = Description example_update
          \<and> ReminderEnabled b' = ReminderEnabled example_update
          \<and> DateTime b' = pg_timestamp (DateTime example_update)
          \<and> Players b' = Players example_update"
    by blast
  from modify_frame [OF k1] k2
  have b: "\<exists>b'. find (\<lambda>r. ID r = ID ?u)
               (rows (conn (snd (ModifyBooking example_service ?u owner_user
                                   (example_world ''pending'' []))))) = Some b'
          \<and> DateTime b' = DateTime ?u"
    by blast
  from h1 a h2 k1 k2 b show ?thesis by blast
qed

text \<open>
  Claim C7 as the specification states it fails for the date-time: the owner modifies
  the pending booking of the tests with a date-time of 5 nanoseconds; the call succeeds
  and the date-time stored is 0, not the caller's.
\<close>

theorem modify_datetime_counterexample:
  "fst (ModifyBooking example_service example_update owner_user (example_world ''pending'' []))
     = None
   \<and> DateTime example_update = 5
   \<and> map DateTime
         (rows (conn (snd (ModifyBooking example_service example_update owner_user
                             (example_world ''pending'' [])))))
       = [0]"
  by code_simp

section \<open>Announcements\<close>

subsection \<open>The chat client never decides an outcome\<close>












lemma CreateBooking_persisted:
  "fst (CreateBooking s booking w) = fst (InsertBooking booking (conn w))"
  by (simp add: CreateBooking_def case_prod_beta prod_eq_iff)

lemma ModifyBooking_persisted:
  "fst (ModifyBooking s updated user w) = None \<longleftrightarrow>
     snd (fst (GetBookingByID (ID updated) (conn w))) = None
     \<and> Status (fst (fst (GetBookingByID (ID updated) (conn w)))) = ''pending''
     \<and> checkUserAllowed (fst (fst (GetBookingByID (ID updated) (conn w)))) user
     \<and> fst (UpdateBooking
               ((fst (fst (GetBookingByID (ID updated) (conn w))))
                  \<lparr>Game := Game updated, Points := Points updated,
                   Description := Description updated,
                   ReminderEnabled := ReminderEnabled updated,
                   DateTime := DateTime updated, Players := Players updated\<rparr>)
               (snd (GetBookingByID (ID updated) (conn w)))) = None"
  by (simp add: ModifyBooking_def case_prod_beta Let_def split: option.splits)

lemma AcceptBooking_persisted:
  "fst (AcceptBooking s bid w) = None \<longleftrightarrow>
     snd (fst (GetBookingByID bid (conn w))) = None
     \<and> Status (fst (fst (GetBookingByID bid (conn w)))) \<noteq> ''canceled''
     \<and> Status (fst (fst (GetBookingByID bid (conn w)))) \<noteq> ''accepted''
     \<and> fst (SetBookingStatus bid ''accepted'' (snd (GetBookingByID bid (conn w)))) = None"
  by (simp add: AcceptBooking_def case_prod_beta split: option.splits)

lemma RefuseBooking_persisted:
  "fst (RefuseBooking s bid why w) = None \<longleftrightarrow>
     snd (fst (GetBookingByID bid (conn w))) = None
     \<and> Status (fst (fst (GetBookingByID bid (conn w)))) \<noteq> ''refused''
     \<and> Status (fst (fst (GetBookingByID bid (conn w)))) \<noteq> ''canceled''
     \<and> fst (SetBookingStatus bid ''refused'' (snd (GetBookingByID bid (conn w)))) = None"
  by (simp add: RefuseBooking_def case_prod_beta split: option.splits)

lemma CancelBooking_persisted:
  "fst (CancelBooking s bid user w) = None \<longleftrightarrow>
     snd (fst (GetBookingByID bid (conn w))) = None
     \<and> Status (fst (fst (GetBookingByID bid (conn w)))) \<noteq> ''canceled''
     \<and> Status (fst (fst (GetBookingByID bid (conn w)))) \<noteq> ''refused''
     \<and> checkUserAllowed (fst (fst (GetBookingByID bid (conn w)))) user
     \<and> fst (SetBookingStatus bid ''canceled'' (snd (GetBookingByID bid (conn w)))) = None"
  by (simp add: CancelBooking_def case_prod_beta split: option.splits)








subsection \<open>The players of an announcement\<close>

lemma reply_tag_guard:
  "reply_tag (members, err) =
     (if err = None \<and> length members \<noteq> 0
      then [Sprintf_tag (User_ID (Member_User (members ! 0)))] else [])"
  by (cases members; cases err) (simp_all add: Sprintf_tag_def)

lemma playerTags_loop_replies:
  "fst (playerTags_loop cl ps acc c) = acc @ concat (map reply_tag (search_replies cl ps c))"
proof (induction ps arbitrary: acc c)
  case Nil
  show ?case by simp
next
  case (Cons p ps)
  obtain members err c' where r: "SearchMembers cl p 1 c = ((members, err), c')"
    by (metis surj_pair)
  show ?case
    using Cons.IH [of _ c'] r
    by (simp add: reply_tag_guard del: reply_tag.simps)
qed

lemma length_search_replies: "length (search_replies cl ps c) = length ps"
  by (induction ps arbitrary: c) (auto split: prod.splits)

lemma field_value_Joueurs:
  "field_value ''Joueurs'' (notification_embed s b opts tags) = Some (strings_Join tags '', '')"
  by (simp add: field_value_def notification_embed_def Let_def)

text \<open>
  Claim C9. \<open>sendNotification\<close> asks the client once for each name of the players,
  in order, and always returns \<open>nil\<close>. The message it hands over has one embed, whose
  field \<open>Joueurs\<close> is the tags of the replies joined by a comma and a space: a reply
  gives the tag \<open><@id>\<close> of its first member when the search returned no error and
  at least one member, and gives nothing otherwise (\<open>reply_tag\<close>).
\<close>

theorem player_tags:
  "fst (sendNotification s b opts w) = None
   \<and> length (search_replies (client s) (Players b) (chatState w)) = length (Players b)
   \<and> (\<exists>e. outbox (snd (sendNotification s b opts w))
              = outbox w @ [(channelID s, \<lparr>Message_Content = [], Message_Embeds = [e]\<rparr>)]
          \<and> field_value ''Joueurs'' e
              = Some (strings_Join
                        (concat (map reply_tag
                                   (search_replies (client s) (Players b) (chatState w))))
                        '', ''))"
proof -
  let ?tags = "fst (playerTags_loop (client s) (Players b) [] (chatState w))"
  have "field_value ''Joueurs'' (notification_embed s b opts ?tags)
          = Some (strings_Join
                    (concat (map reply_tag (search_replies (client s) (Players b) (chatState w))))
                    '', '')"
    by (simp add: field_value_Joueurs playerTags_loop_replies)
  with sendNotification_outbox [of s b opts w] sendNotification_fst [of s b opts w]
    length_search_replies [of "client s" "Players b" "chatState w"]
  show ?thesis by blast
qed

text \<open>
  The theorem for three players of which the directory knows the first and the last: the
  unknown one is left out. With the client that fails every search the field is empty
  and the message is handed over all the same.
\<close>

theorem player_tags_witness:
  "fst (sendNotification example_service
          ((example_booking ''pending'')\<lparr>Players := [''user1'', ''ghost'', ''player2'']\<rparr>)
          \<lparr>message = ''title'', reason = []\<rparr> (example_world ''pending'' [])) = None
   \<and> map reply_tag (search_replies (client example_service)
                       [''user1'', ''ghost'', ''player2''] 0)
       = [[''<@12345>''], [], [''<@abcdef>'']]
   \<and> (\<exists>e. outbox (snd (sendNotification example_service
                ((example_booking ''pending'')\<lparr>Players := [''user1'', ''ghost'', ''player2'']\<rparr>)
                \<lparr>message = ''title'', reason = []\<rparr> (example_world ''pending'' [])))
              = [(''test-channel-d'', \<lparr>Message_Content = [], Message_Embeds = [e]\<rparr>)]
          \<and> field_value ''Joueurs'' e = Some ''<@12345>, <@abcdef>'')
   \<and> (\<exists>e. outbox (snd (sendNotification offline_service (example_booking ''pending'')
                \<lparr>message = ''title'', reason = []\<rparr> (offline_world ''pending'' [])))
              = [(''test-channel-d'', \<lparr>Message_Content = [], Message_Embeds = [e]\<rparr>)]
          \<and> field_value ''Joueurs'' e = Some [])"
proof -
  let ?b = "(example_booking ''pending'')\<lparr>Players := [''user1'', ''ghost'', ''player2'']\<rparr>"
  let ?opts = "\<lparr>message = ''title'', reason = []\<rparr>"
  have r: "map reply_tag (search_replies (client example_service)
                       [''user1'', ''ghost'', ''player2''] 0)
       = [[''<@12345>''], [], [''<@abcdef>'']]"
    by code_simp
  have j1: "strings_Join
              (concat (map reply_tag
                         (search_replies (client example_service) (Players ?b)
                            (chatState (example_world ''pending'' [])))))
              '', ''
            = ''<@12345>, <@abcdef>''"
    by code_simp
  have j2: "strings_Join
              (concat (map reply_tag
                         (search_replies (client offline_service)
                            (Players (example_booking ''pending''))
                            (chatState (offline_world ''pending'' [])))))
              '', ''
            = []"
    by code_simp
  have o1: "outbox (example_world ''pending'' []) = []"
    and c1: "channelID example_service = ''test-channel-d''"
    by (simp_all add: example_world_def example_service_def)
  have o2: "outbox (offline_world ''pending'' []) = []"
    and c2: "channelID offline_service = ''test-channel-d''"
    by (simp_all add: offline_world_def offline_service_def)
  note online = player_tags [where s = example_service and b = ?b and opts = ?opts
      and w = "example_world ''pending'' []", unfolded j1 o1 c1 append_Nil]
  note offline = player_tags [where s = offline_service and b = "example_booking ''pending''"
      and opts = ?opts and w = "offline_world ''pending'' []", unfolded j2 o2 c2 append_Nil]
  from online offline r show ?thesis by blast
qed

subsection \<open>The requester and the description of an announcement\<close>

lemma field_value_Utilisateur:
  "field_value ''Utilisateur'' (notification_embed s b opts tags)
     = Some (if UserID b \<noteq> [] then ''<@'' @ UserID b @ ''>'' else ''<@'' @ Username b @ ''>'')"
  by (simp add: field_value_def notification_embed_def Let_def Sprintf_tag_def)

lemma field_value_Description:
  "field_value ''Description'' (notification_embed s b opts tags)
     = Some (if Description b = [] then ''Aucune'' else Description b)"
  by (simp add: field_value_def notification_embed_def Let_def)

text \<open>
  Claim C10. The message \<open>sendNotification\<close> hands over has one embed. Its field
  \<open>Utilisateur\<close> is \<open><@UserID>\<close> when the booking's user ID is not empty and
  \<open><@Username>\<close> otherwise, so it is never empty; its field \<open>Description\<close> is the
  booking's description, or \<open>Aucune\<close> when that is empty, so it is never empty
  either.
\<close>

theorem user_and_description_fields:
  "\<exists>e. outbox (snd (sendNotification s b opts w))
          = outbox w @ [(channelID s, \<lparr>Message_Content = [], Message_Embeds = [e]\<rparr>)]
      \<and> field_value ''Utilisateur'' e
          = Some (if UserID b \<noteq> [] then ''<@'' @ UserID b @ ''>''
                  else ''<@'' @ Username b @ ''>'')
      \<and> field_value ''Utilisateur'' e \<noteq> Some []
      \<and> field_value ''Description'' e
          = Some (if Description b = [] then ''Aucune'' else Description b)
      \<and> field_value ''Description'' e \<noteq> Some []"
proof -
  let ?e = "notification_embed s b opts
              (fst (playerTags_loop (client s) (Players b) [] (chatState w)))"
  have u: "field_value ''Utilisateur'' ?e \<noteq> Some []"
    by (simp add: field_value_Utilisateur)
  have d: "field_value ''Description'' ?e \<noteq> Some []"
    by (simp add: field_value_Description)
  from sendNotification_outbox [of s b opts w] u d
    field_value_Utilisateur [of s b opts] field_value_Description [of s b opts]
  show ?thesis by blast
qed

text \<open>
  The theorem for a booking that has neither a user ID nor a description: the requester
  is tagged by username and the description reads \<open>Aucune\<close>.
\<close>

theorem user_and_description_fields_witness:
  "\<exists>e. outbox (snd (sendNotification example_service
                      ((example_booking ''pending'')\<lparr>UserID := [], Description := []\<rparr>)
                      \<lparr>message = ''title'', reason = []\<rparr> (example_world ''pending'' [])))
          = [(''test-channel-d'', \<lparr>Message_Content = [], Message_Embeds = [e]\<rparr>)]
      \<and> field_value ''Utilisateur'' e = Some ''<@user1>''
      \<and> field_value ''Description'' e = Some ''Aucune''"
proof -
  let ?b = "(example_booking ''pending'')\<lparr>UserID := [], Description := []\<rparr>"
  have u: "(if UserID ?b \<noteq> [] then ''<@'' @ UserID ?b @ ''>'' else ''<@'' @ Username ?b @ ''>'')
             = ''<@user1>''"
    by code_simp
  have d: "(if Description ?b = [] then ''Aucune'' else Description ?b) = ''Aucune''"
    by code_simp
  have o1: "outbox (example_world ''pending'' []) = []"
    and c1: "channelID example_service = ''test-channel-d''"
    by (simp_all add: example_world_def example_service_def)
  from user_and_description_fields [where s = example_service and b = ?b
      and opts = "\<lparr>message = ''title'', reason = []\<rparr>" and w = "example_world ''pending'' []",
      unfolded u d o1 c1 append_Nil]
  show ?thesis by blast
qed

end
